theory Spec2Isabelle
  imports Main "HOL-Library.Product_Lexorder" "HOL-Library.List_Lexorder" "HOL-Library.Char_ord"
begin

section \<open>Exceptions and ORM rows\<close>

text \<open>
  The Django application of \<^verbatim>\<open>src/django_api/api/monobank\<close> is embedded
  shallowly. An exception that leaves a function is a value \<open>Inl e\<close> of a sum type; a
  database table is the list of its rows in insertion order; the database is a record of
  tables that every operation takes and returns.
\<close>

datatype py_error =
    ValueError
  | KeyError
  | OverflowError
  | OSError
  | DoesNotExist
  | MultipleObjectsReturned
  | IntegrityError
  | DataError
  | Http404
  | PermissionDenied

text \<open>\<^verbatim>\<open>models.py\<close>: one record per model class, one field per column. A foreign
  key holds the primary key of the row it points to. \<^verbatim>\<open>MonoAccount.user\<close> is a
  one-to-one link to the \<^verbatim>\<open>User\<close> model of another application; the only column of
  it the code reads, \<^verbatim>\<open>user.tg_id\<close>, is kept in the account row.\<close>

record Currency =
  cur_pk :: nat
  cur_code :: int
  cur_name :: string
  cur_flag :: "string option"
  cur_symbol :: "string option"

record Category =
  cat_pk :: nat
  cat_name :: string
  cat_symbol :: "string option"
  cat_user_defined :: bool

record CategoryMSO =
  mso_pk :: nat
  mso_category :: nat
  mso :: int

record MonoAccount =
  acc_pk :: nat
  acc_user_tg_id :: string
  mono_token :: string
  acc_active :: bool

record MonoCard =
  card_monoaccount :: nat
  card_id :: string
  card_send_id :: string
  card_currency :: nat
  card_cashback_type :: string
  card_balance :: int
  card_credit_limit :: int
  card_masked_pan :: "string list option"
  card_type :: string
  card_iban :: string
  card_is_active :: bool

record MonoJar =
  jar_monoaccount :: nat
  jar_id :: string
  jar_send_id :: string
  jar_title :: string
  jar_currency :: nat
  jar_balance :: int
  jar_goal :: "int option"
  jar_is_budget :: bool
  jar_is_active :: bool
  jar_invested :: int

record MonoTransaction =
  mt_id :: string
  mt_time :: int
  mt_description :: "string option"
  mt_mcc :: nat
  mt_original_mcc :: "int option"
  mt_amount :: int
  mt_operation_amount :: "int option"
  mt_currency :: "nat option"
  mt_commission_rate :: "int option"
  mt_balance :: int
  mt_hold :: bool
  mt_receipt_id :: "string option"
  mt_account :: string
  mt_cashback_amount :: int
  mt_comment :: "string option"

record JarTransaction =
  jt_account :: string
  jt_id :: string
  jt_time :: int
  jt_description :: "string option"
  jt_mcc :: nat
  jt_original_mcc :: "int option"
  jt_amount :: int
  jt_operation_amount :: "int option"
  jt_currency :: "nat option"
  jt_commission_rate :: "int option"
  jt_cashback_amount :: int
  jt_balance :: int
  jt_hold :: bool
  jt_comment :: "string option"

record db =
  currencies :: "Currency list"
  categories :: "Category list"
  category_msos :: "CategoryMSO list"
  mono_accounts :: "MonoAccount list"
  mono_cards :: "MonoCard list"
  mono_jars :: "MonoJar list"
  mono_transactions :: "MonoTransaction list"
  jar_transactions :: "JarTransaction list"

text \<open>\<^verbatim>\<open>Model.objects.get(...)\<close>: the one row that matches, \<^verbatim>\<open>DoesNotExist\<close> when
  none does, \<^verbatim>\<open>MultipleObjectsReturned\<close> when several do.\<close>

definition objects_get :: "('a \<Rightarrow> bool) \<Rightarrow> 'a list \<Rightarrow> py_error + 'a" where
  "objects_get p rows =
     (case filter p rows of
        [] \<Rightarrow> Inl DoesNotExist
      | [r] \<Rightarrow> Inr r
      | _ \<Rightarrow> Inl MultipleObjectsReturned)"

text \<open>\<^verbatim>\<open>instance.save()\<close> on a model whose primary key is set by the caller: the row
  with that key is overwritten when there is one, and a new row is inserted otherwise.\<close>

definition save_row :: "('a \<Rightarrow> 'k) \<Rightarrow> 'a \<Rightarrow> 'a list \<Rightarrow> 'a list" where
  "save_row key row rows =
     (if \<exists>r \<in> set rows. key r = key row
      then map (\<lambda>r. if key r = key row then row else r) rows
      else rows @ [row])"


text \<open>
  The database refuses a row that its columns cannot hold (an integer outside the range of
  the column, a string longer than the column): \<^verbatim>\<open>save()\<close>, \<^verbatim>\<open>create()\<close> and
  \<^verbatim>\<open>get_or_create()\<close> then raise, and the row is not written. Which rows are refused, and
  with which exception, is decided by the database engine, which the settings choose and
  the sources do not show. The engine is therefore a parameter of the model: for each table,
  the exception that writing a given row raises, \<open>None\<close> when the row is written.
\<close>

record backend =
  refuses_currency :: "Currency \<Rightarrow> py_error option"
  refuses_category :: "Category \<Rightarrow> py_error option"
  refuses_category_mso :: "CategoryMSO \<Rightarrow> py_error option"
  refuses_card :: "MonoCard \<Rightarrow> py_error option"
  refuses_jar :: "MonoJar \<Rightarrow> py_error option"
  refuses_mono_transaction :: "MonoTransaction \<Rightarrow> py_error option"
  refuses_jar_transaction :: "JarTransaction \<Rightarrow> py_error option"

section \<open>Dates\<close>

text \<open>
  A \<^verbatim>\<open>date\<close> is the triple (year, month, day); Python compares dates as such triples.
  The constructor \<^verbatim>\<open>date(year, month, day)\<close> raises \<^verbatim>\<open>ValueError\<close> unless the year is
  between \<^verbatim>\<open>MINYEAR\<close> = 1 and \<^verbatim>\<open>MAXYEAR\<close> = 9999, the month between 1 and 12 and the
  day between 1 and the length of the month.
\<close>

type_synonym date = "int \<times> int \<times> int"

definition MINYEAR :: int where "MINYEAR = 1"
definition MAXYEAR :: int where "MAXYEAR = 9999"

definition is_leap :: "int \<Rightarrow> bool" where
  "is_leap y = (y mod 4 = 0 \<and> (y mod 100 \<noteq> 0 \<or> y mod 400 = 0))"

definition DAYS_IN_MONTH :: "int list" where
  "DAYS_IN_MONTH = [-1, 31, 28, 31, 30, 31, 30, 31, 31, 30, 31, 30, 31]"

definition days_in_month :: "int \<Rightarrow> int \<Rightarrow> int" where
  "days_in_month year month =
     (if month = 2 \<and> is_leap year then 29 else DAYS_IN_MONTH ! nat month)"

definition valid_date :: "date \<Rightarrow> bool" where
  "valid_date dt =
     (case dt of (year, month, day) \<Rightarrow>
        MINYEAR \<le> year \<and> year \<le> MAXYEAR \<and> 1 \<le> month \<and> month \<le> 12 \<and>
        1 \<le> day \<and> day \<le> days_in_month year month)"

definition date_new :: "int \<Rightarrow> int \<Rightarrow> int \<Rightarrow> py_error + date" where
  "date_new year month day =
     (if valid_date (year, month, day) then Inr (year, month, day) else Inl ValueError)"

text \<open>
  The functions of the standard library that depend on the time zone of the process (Django
  sets it from the setting \<^verbatim>\<open>TIME_ZONE\<close>) and on the zone database of the platform,
  neither of which is among the sources, are parameters of the model, and so is the parser
  of the library:

  \<^item> \<open>timestamp d\<close> is \<^verbatim>\<open>int(datetime.combine(d, datetime.min.time()).timestamp())\<close>, the
    Unix time of the local midnight that begins the date \<open>d\<close>;
  \<^item> \<open>fromtimestamp ts\<close> is the date part of \<^verbatim>\<open>datetime.fromtimestamp(ts)\<close>, the local
    date of the instant \<open>ts\<close>;
  \<^item> \<open>strptime s\<close> is the date part of \<^verbatim>\<open>datetime.strptime(s, "%Y-%m-%d")\<close>.

  Each returns its result or the exception it raises. What is proved of the code below holds
  for every such triple of functions; CPython's own are modelled further down, for a zone
  given by its offsets, and the worked instances use them.
\<close>

section \<open>Aggregation over a jar's transactions (\<^verbatim>\<open>models.py\<close>, \<^verbatim>\<open>MonoJar\<close>)\<close>

text \<open>A loop that stops at the first exception.\<close>

fun traverse :: "('a \<Rightarrow> py_error + 'b) \<Rightarrow> 'a list \<Rightarrow> py_error + 'b list" where
  "traverse f [] = Inr []"
| "traverse f (x # xs) =
     (case f x of
        Inl e \<Rightarrow> Inl e
      | Inr y \<Rightarrow> (case traverse f xs of Inl e \<Rightarrow> Inl e | Inr ys \<Rightarrow> Inr (y # ys)))"

text \<open>\<^verbatim>\<open>get_available_months\<close>. The set \<^verbatim>\<open>unique_year_month\<close> is the list of its
  elements without repetition; \<^verbatim>\<open>sorted\<close> puts the dates in ascending order whatever
  order the set is read in.\<close>

definition get_available_months ::
  "(int \<Rightarrow> py_error + date) \<Rightarrow> db \<Rightarrow> MonoJar \<Rightarrow> py_error + date list" where
  "get_available_months fromtimestamp d self =
     (let timestamps = map jt_time (filter (\<lambda>t. jt_account t = jar_id self) (jar_transactions d))
      in case traverse fromtimestamp timestamps of
           Inl e \<Rightarrow> Inl e
         | Inr dts \<Rightarrow>
             (let unique_year_month = remdups (map (\<lambda>(year, month, day). (year, month)) dts)
              in case traverse (\<lambda>(y, m). date_new y m 1) unique_year_month of
                   Inl e \<Rightarrow> Inl e
                 | Inr dates \<Rightarrow> Inr (sort dates)))"

text \<open>\<^verbatim>\<open>get_month_summary\<close> takes a string or a date.\<close>

datatype month_arg = MonthStr string | MonthDate date

record summary =
  start_balance :: int
  budget :: int
  end_balance :: int
  spent :: int

text \<open>The two dates and the two timestamps that \<^verbatim>\<open>get_month_summary\<close> computes before
  it queries, in the order in which it computes them.\<close>

definition month_bounds :: "(date \<Rightarrow> py_error + int) \<Rightarrow> date \<Rightarrow> py_error + int \<times> int" where
  "month_bounds timestamp month_date =
     (case month_date of (year, month, day) \<Rightarrow>
        (case date_new year month 1 of
           Inl e \<Rightarrow> Inl e
         | Inr month_start \<Rightarrow>
             (case (if month = 12 then date_new (year + 1) 1 1 else date_new year (month + 1) 1) of
                Inl e \<Rightarrow> Inl e
              | Inr next_month_start \<Rightarrow>
                  (case timestamp month_start of
                     Inl e \<Rightarrow> Inl e
                   | Inr start_ts \<Rightarrow>
                       (case timestamp next_month_start of
                          Inl e \<Rightarrow> Inl e
                        | Inr end_ts \<Rightarrow> Inr (start_ts, end_ts))))))"

text \<open>The queryset \<^verbatim>\<open>qs\<close>: the jar's transactions of the half-open interval, ordered
  by \<^verbatim>\<open>("time", "id")\<close>. \<^verbatim>\<open>first()\<close> and \<^verbatim>\<open>last()\<close> are the ends of that list; the
  query for the budget orders the rows of positive amount by descending amount and reads
  the first amount, \<open>None\<close> when there is no row.\<close>

definition month_queryset :: "db \<Rightarrow> MonoJar \<Rightarrow> int \<Rightarrow> int \<Rightarrow> JarTransaction list" where
  "month_queryset d self start_ts end_ts =
     sort_key (\<lambda>t. (jt_time t, jt_id t))
       (filter (\<lambda>t. jt_account t = jar_id self \<and> start_ts \<le> jt_time t \<and> jt_time t < end_ts)
          (jar_transactions d))"

definition positive_budget :: "JarTransaction list \<Rightarrow> int option" where
  "positive_budget qs =
     (case sort_key (\<lambda>t. - jt_amount t) (filter (\<lambda>t. jt_amount t > 0) qs) of
        [] \<Rightarrow> None
      | t # ts \<Rightarrow> Some (jt_amount t))"

definition get_month_summary ::
  "(string \<Rightarrow> py_error + date) \<Rightarrow> (date \<Rightarrow> py_error + int) \<Rightarrow> db \<Rightarrow> MonoJar \<Rightarrow> month_arg
     \<Rightarrow> py_error + summary" where
  "get_month_summary strptime timestamp d self month =
     (case (case month of MonthStr s \<Rightarrow> strptime s | MonthDate dt \<Rightarrow> Inr dt) of
        Inl e \<Rightarrow> Inl e
      | Inr month_date \<Rightarrow>
          (case month_bounds timestamp month_date of
             Inl e \<Rightarrow> Inl e
           | Inr (start_ts, end_ts) \<Rightarrow>
               (let qs = month_queryset d self start_ts end_ts
                in if qs = [] then
                     Inr \<lparr>start_balance = 0, budget = 0, end_balance = 0, spent = 0\<rparr>
                   else
                     (let first_tx = hd qs;
                          last_tx = last qs;
                          budget = (case positive_budget qs of Some b \<Rightarrow> b | None \<Rightarrow> 0);
                          start_balance = jt_balance first_tx;
                          end_balance = jt_balance last_tx;
                          spent = start_balance - end_balance - budget
                      in Inr \<lparr>start_balance = start_balance, budget = budget,
                              end_balance = end_balance, spent = spent\<rparr>))))"

section \<open>The transaction webhook (\<^verbatim>\<open>views.py\<close>, \<^verbatim>\<open>TransactionWebhookApiView\<close>)\<close>

text \<open>
  \<^verbatim>\<open>TransactionData\<close> is declared in \<^verbatim>\<open>monobank/pydantic.py\<close>, which is not among
  the sources. The view reads from a parsed payload its \<^verbatim>\<open>account\<close> (a \<^verbatim>\<open>MonoCard\<close> or
  a \<^verbatim>\<open>MonoJar\<close> row, told apart with \<^verbatim>\<open>isinstance\<close>) and its \<^verbatim>\<open>statement_item\<close>,
  whose \<^verbatim>\<open>mcc\<close> and \<^verbatim>\<open>currency\<close> are rows already. The outcome of
  \<^verbatim>\<open>TransactionData.parse_obj(request.data)\<close> is therefore an input of the model: the
  parsed payload, or one of the two exceptions the view catches.
\<close>

datatype account_ref = Card MonoCard | Jar MonoJar

record StatementItem =
  si_id :: string
  si_time :: int
  si_description :: "string option"
  si_mcc :: CategoryMSO
  si_original_mcc :: "int option"
  si_amount :: int
  si_operation_amount :: "int option"
  si_currency :: "Currency option"
  si_commission_rate :: "int option"
  si_balance :: int
  si_hold :: bool
  si_receipt_id :: "string option"
  si_cashback_amount :: int
  si_comment :: "string option"

record TransactionData =
  td_account :: account_ref
  statement_item :: StatementItem

datatype parse_failure = ValidationError | MonoDataNotFound

text \<open>A response is its status code; an exception no handler of the view catches leaves
  the view.\<close>

datatype response = Response nat | Raised py_error

definition account_monoaccount :: "account_ref \<Rightarrow> nat" where
  "account_monoaccount a = (case a of Card c \<Rightarrow> card_monoaccount c | Jar j \<Rightarrow> jar_monoaccount j)"

definition card_transaction_row :: "MonoCard \<Rightarrow> StatementItem \<Rightarrow> MonoTransaction" where
  "card_transaction_row c si =
     \<lparr> mt_id = si_id si, mt_time = si_time si, mt_description = si_description si,
       mt_mcc = mso_pk (si_mcc si), mt_original_mcc = si_original_mcc si,
       mt_amount = si_amount si, mt_operation_amount = si_operation_amount si,
       mt_currency = map_option cur_pk (si_currency si),
       mt_commission_rate = si_commission_rate si, mt_balance = si_balance si,
       mt_hold = si_hold si, mt_receipt_id = si_receipt_id si, mt_account = card_id c,
       mt_cashback_amount = si_cashback_amount si, mt_comment = si_comment si \<rparr>"

text \<open>\<^verbatim>\<open>_process_jar_transaction\<close> passes no \<^verbatim>\<open>comment\<close>: the column keeps its
  default, NULL.\<close>

definition jar_transaction_row :: "MonoJar \<Rightarrow> StatementItem \<Rightarrow> JarTransaction" where
  "jar_transaction_row j si =
     \<lparr> jt_account = jar_id j, jt_id = si_id si, jt_time = si_time si,
       jt_description = si_description si, jt_mcc = mso_pk (si_mcc si),
       jt_original_mcc = si_original_mcc si, jt_amount = si_amount si,
       jt_operation_amount = si_operation_amount si,
       jt_currency = map_option cur_pk (si_currency si),
       jt_commission_rate = si_commission_rate si,
       jt_cashback_amount = si_cashback_amount si, jt_balance = si_balance si,
       jt_hold = si_hold si, jt_comment = None \<rparr>"

text \<open>\<^verbatim>\<open>_process_card_transaction\<close> and \<^verbatim>\<open>_process_jar_transaction\<close>:
  \<^verbatim>\<open>transaction.save()\<close> raises when the database refuses the row.\<close>

definition process_card_transaction ::
  "backend \<Rightarrow> db \<Rightarrow> MonoCard \<Rightarrow> StatementItem \<Rightarrow> py_error + db" where
  "process_card_transaction b d c si =
     (case refuses_mono_transaction b (card_transaction_row c si) of
        Some e \<Rightarrow> Inl e
      | None \<Rightarrow>
          Inr (d\<lparr>mono_transactions :=
                   save_row mt_id (card_transaction_row c si) (mono_transactions d)\<rparr>))"

definition process_jar_transaction ::
  "backend \<Rightarrow> db \<Rightarrow> MonoJar \<Rightarrow> StatementItem \<Rightarrow> py_error + db" where
  "process_jar_transaction b d j si =
     (case refuses_jar_transaction b (jar_transaction_row j si) of
        Some e \<Rightarrow> Inl e
      | None \<Rightarrow>
          Inr (d\<lparr>jar_transactions :=
                   save_row jt_id (jar_transaction_row j si) (jar_transactions d)\<rparr>))"

text \<open>\<^verbatim>\<open>post\<close>: the \<^verbatim>\<open>token\<close> query parameter (\<open>None\<close> when the request has none)
  and the outcome of parsing the body. The view catches the two exceptions of parsing and
  no other: an exception of \<^verbatim>\<open>save()\<close> leaves it.\<close>

definition post ::
  "backend \<Rightarrow> db \<Rightarrow> string option \<Rightarrow> parse_failure + TransactionData \<Rightarrow> response \<times> db" where
  "post b d token parsed =
     (case token of
        None \<Rightarrow> (Response 403, d)
      | Some user_key \<Rightarrow>
          if user_key = [] then (Response 403, d)
          else
            (case parsed of
               Inl ValidationError \<Rightarrow> (Response 422, d)
             | Inl MonoDataNotFound \<Rightarrow> (Response 404, d)
             | Inr parsed_data \<Rightarrow>
                 (case objects_get (\<lambda>a. acc_pk a = account_monoaccount (td_account parsed_data))
                         (mono_accounts d) of
                    Inl e \<Rightarrow> (Raised e, d)
                  | Inr monoaccount \<Rightarrow>
                      if mono_token monoaccount \<noteq> user_key then (Response 403, d)
                      else
                        (case td_account parsed_data of
                           Card c \<Rightarrow>
                             if \<exists>t \<in> set (mono_transactions d).
                                  mt_id t = si_id (statement_item parsed_data)
                             then (Response 200, d)
                             else
                               (case process_card_transaction b d c
                                       (statement_item parsed_data) of
                                  Inl e \<Rightarrow> (Raised e, d)
                                | Inr d' \<Rightarrow> (Response 201, d'))
                         | Jar j \<Rightarrow>
                             if \<exists>t \<in> set (jar_transactions d).
                                  jt_id t = si_id (statement_item parsed_data)
                             then (Response 200, d)
                             else
                               (case process_jar_transaction b d j
                                       (statement_item parsed_data) of
                                  Inl e \<Rightarrow> (Raised e, d)
                                | Inr d' \<Rightarrow> (Response 201, d'))))))"

text \<open>The existence test of \<^verbatim>\<open>post\<close>: the statement item's id among the stored
  transactions of the account's kind.\<close>

definition transaction_exists :: "db \<Rightarrow> TransactionData \<Rightarrow> bool" where
  "transaction_exists d td =
     (case td_account td of
        Card c \<Rightarrow> \<exists>t \<in> set (mono_transactions d). mt_id t = si_id (statement_item td)
      | Jar j \<Rightarrow> \<exists>t \<in> set (jar_transactions d). jt_id t = si_id (statement_item td))"

text \<open>The exception with which the database refuses the row of the payload, if it does.\<close>

definition transaction_refused :: "backend \<Rightarrow> TransactionData \<Rightarrow> py_error option" where
  "transaction_refused b td =
     (case td_account td of
        Card c \<Rightarrow> refuses_mono_transaction b (card_transaction_row c (statement_item td))
      | Jar j \<Rightarrow> refuses_jar_transaction b (jar_transaction_row j (statement_item td)))"

text \<open>The database with one more row at the end of the table of the account's kind, and
  nothing else changed.\<close>

definition with_new_transaction :: "db \<Rightarrow> TransactionData \<Rightarrow> db" where
  "with_new_transaction d td =
     (case td_account td of
        Card c \<Rightarrow>
          d\<lparr>mono_transactions :=
              mono_transactions d @ [card_transaction_row c (statement_item td)]\<rparr>
      | Jar j \<Rightarrow>
          d\<lparr>jar_transactions :=
              jar_transactions d @ [jar_transaction_row j (statement_item td)]\<rparr>)"

subsection \<open>Data for the worked instances\<close>

definition demo_currency :: Currency where
  "demo_currency =
     \<lparr>cur_pk = 1, cur_code = 980, cur_name = ''UAH'', cur_flag = None, cur_symbol = None\<rparr>"

definition demo_mso :: CategoryMSO where
  "demo_mso = \<lparr>mso_pk = 1, mso_category = 1, mso = 4829\<rparr>"

definition demo_account :: MonoAccount where
  "demo_account =
     \<lparr>acc_pk = 1, acc_user_tg_id = ''111'', mono_token = ''secret'', acc_active = True\<rparr>"

definition demo_card :: MonoCard where
  "demo_card =
     \<lparr>card_monoaccount = 1, card_id = ''card1'', card_send_id = ''s1'', card_currency = 1,
      card_cashback_type = ''UAH'', card_balance = 5000, card_credit_limit = 0,
      card_masked_pan = None, card_type = ''black'', card_iban = ''UA00'',
      card_is_active = True\<rparr>"

definition demo_jar :: MonoJar where
  "demo_jar =
     \<lparr>jar_monoaccount = 1, jar_id = ''jar1'', jar_send_id = ''j1'', jar_title = ''trip'',
      jar_currency = 1, jar_balance = 1000, jar_goal = None, jar_is_budget = False,
      jar_is_active = True, jar_invested = 0\<rparr>"

definition demo_item :: StatementItem where
  "demo_item =
     \<lparr>si_id = ''tx1'', si_time = 1700000000, si_description = None, si_mcc = demo_mso,
      si_original_mcc = None, si_amount = -250, si_operation_amount = None,
      si_currency = Some demo_currency, si_commission_rate = None, si_balance = 4750,
      si_hold = False, si_receipt_id = None, si_cashback_amount = 0, si_comment = None\<rparr>"

definition demo_payload :: TransactionData where
  "demo_payload = \<lparr>td_account = Card demo_card, statement_item = demo_item\<rparr>"

definition demo_db :: db where
  "demo_db =
     \<lparr>currencies = [demo_currency], categories = [], category_msos = [demo_mso],
      mono_accounts = [demo_account], mono_cards = [demo_card], mono_jars = [demo_jar],
      mono_transactions = [], jar_transactions = []\<rparr>"

text \<open>An engine that, like SQLite, holds every string and every integer of 64 bits, and
  raises \<^verbatim>\<open>OverflowError\<close> for an integer beyond them. The keys the database generates
  are within the range.\<close>

definition int64 :: "int \<Rightarrow> bool" where
  "int64 n = (- (2 ^ 63) \<le> n \<and> n < 2 ^ 63)"

definition int64_opt :: "int option \<Rightarrow> bool" where
  "int64_opt n = (case n of None \<Rightarrow> True | Some k \<Rightarrow> int64 k)"

definition overflow_unless :: "bool \<Rightarrow> py_error option" where
  "overflow_unless ok = (if ok then None else Some OverflowError)"

definition sqlite :: backend where
  "sqlite =
     \<lparr>refuses_currency = (\<lambda>r. overflow_unless (int64 (cur_code r))),
      refuses_category = (\<lambda>r. None),
      refuses_category_mso = (\<lambda>r. overflow_unless (int64 (mso r))),
      refuses_card =
        (\<lambda>r. overflow_unless (int64 (card_balance r) \<and> int64 (card_credit_limit r))),
      refuses_jar =
        (\<lambda>r. overflow_unless
               (int64 (jar_balance r) \<and> int64_opt (jar_goal r) \<and> int64 (jar_invested r))),
      refuses_mono_transaction =
        (\<lambda>r. overflow_unless
               (int64 (mt_time r) \<and> int64_opt (mt_original_mcc r) \<and> int64 (mt_amount r) \<and>
                int64_opt (mt_operation_amount r) \<and> int64_opt (mt_commission_rate r) \<and>
                int64 (mt_balance r) \<and> int64 (mt_cashback_amount r))),
      refuses_jar_transaction =
        (\<lambda>r. overflow_unless
               (int64 (jt_time r) \<and> int64_opt (jt_original_mcc r) \<and> int64 (jt_amount r) \<and>
                int64_opt (jt_operation_amount r) \<and> int64_opt (jt_commission_rate r) \<and>
                int64 (jt_balance r) \<and> int64 (jt_cashback_amount r)))\<rparr>"

lemmas demo_defs =
  demo_currency_def demo_mso_def demo_account_def demo_card_def demo_jar_def demo_item_def
  demo_payload_def demo_db_def

subsection \<open>Every path of \<^verbatim>\<open>post\<close>\<close>

lemma post_no_token: "post b d None parsed = (Response 403, d)"
  by (simp add: post_def)

lemma post_empty_token: "post b d (Some []) parsed = (Response 403, d)"
  by (simp add: post_def)

lemma post_parse_failure: "snd (post b d tok (Inl e)) = d"
  by (cases tok; cases e) (simp_all add: post_def)

lemma post_no_owner:
  "objects_get (\<lambda>a. acc_pk a = account_monoaccount (td_account td)) (mono_accounts d) = Inl e
   \<Longrightarrow> snd (post b d tok (Inr td)) = d"
  by (cases tok) (simp_all add: post_def)

lemma post_mismatch:
  "objects_get (\<lambda>a. acc_pk a = account_monoaccount (td_account td)) (mono_accounts d) = Inr acc
   \<Longrightarrow> mono_token acc \<noteq> tok \<Longrightarrow> post b d (Some tok) (Inr td) = (Response 403, d)"
  by (simp add: post_def)

lemma post_stored:
  "objects_get (\<lambda>a. acc_pk a = account_monoaccount (td_account td)) (mono_accounts d) = Inr acc
   \<Longrightarrow> mono_token acc = tok \<Longrightarrow> tok \<noteq> [] \<Longrightarrow> transaction_exists d td
   \<Longrightarrow> post b d (Some tok) (Inr td) = (Response 200, d)"
  by (cases "td_account td") (simp_all add: post_def transaction_exists_def)

lemma post_new:
  "objects_get (\<lambda>a. acc_pk a = account_monoaccount (td_account td)) (mono_accounts d) = Inr acc
   \<Longrightarrow> mono_token acc = tok \<Longrightarrow> tok \<noteq> [] \<Longrightarrow> \<not> transaction_exists d td
   \<Longrightarrow> transaction_refused b td = None
   \<Longrightarrow> post b d (Some tok) (Inr td) = (Response 201, with_new_transaction d td)"
  by (cases "td_account td")
     (simp_all add: post_def transaction_exists_def with_new_transaction_def
        transaction_refused_def
        process_card_transaction_def process_jar_transaction_def save_row_def
        card_transaction_row_def jar_transaction_row_def)

lemma post_refused:
  "objects_get (\<lambda>a. acc_pk a = account_monoaccount (td_account td)) (mono_accounts d) = Inr acc
   \<Longrightarrow> mono_token acc = tok \<Longrightarrow> tok \<noteq> [] \<Longrightarrow> \<not> transaction_exists d td
   \<Longrightarrow> transaction_refused b td = Some e
   \<Longrightarrow> post b d (Some tok) (Inr td) = (Raised e, d)"
  by (cases "td_account td")
     (simp_all add: post_def transaction_exists_def transaction_refused_def
        process_card_transaction_def process_jar_transaction_def)

lemma with_new_transaction_accounts:
  "mono_accounts (with_new_transaction d td) = mono_accounts d"
  by (cases "td_account td") (simp_all add: with_new_transaction_def)

lemma with_new_transaction_exists: "transaction_exists (with_new_transaction d td) td"
  by (cases "td_account td")
     (simp_all add: with_new_transaction_def transaction_exists_def
        card_transaction_row_def jar_transaction_row_def)

lemma post_twice: "snd (post b (snd (post b d tok p)) tok p) = snd (post b d tok p)"
proof (cases p)
  case (Inl e)
  then show ?thesis by (simp add: post_parse_failure)
next
  case (Inr td)
  let ?owner =
    "objects_get (\<lambda>a. acc_pk a = account_monoaccount (td_account td)) (mono_accounts d)"
  show ?thesis
  proof (cases tok)
    case None
    then show ?thesis by (simp add: post_no_token)
  next
    case (Some k)
    show ?thesis
    proof (cases ?owner)
      case (Inl e)
      then show ?thesis using Inr by (simp add: post_no_owner)
    next
      case owner: (Inr acc)
      show ?thesis
      proof (cases "mono_token acc = k \<and> k \<noteq> []")
        case False
        then have "post b d (Some k) (Inr td) = (Response 403, d)"
          using owner by (cases "k = []") (simp_all add: post_empty_token post_mismatch)
        then show ?thesis using Inr Some by simp
      next
        case good: True
        show ?thesis
        proof (cases "transaction_exists d td")
          case True
          with good owner have "post b d (Some k) (Inr td) = (Response 200, d)"
            by (simp add: post_stored)
          then show ?thesis using Inr Some by simp
        next
          case False
          show ?thesis
          proof (cases "transaction_refused b td")
            case None
            with False good owner
            have first: "post b d (Some k) (Inr td) = (Response 201, with_new_transaction d td)"
              by (simp add: post_new)
            have "post b (with_new_transaction d td) (Some k) (Inr td)
                    = (Response 200, with_new_transaction d td)"
              using good owner
              by (intro post_stored[where acc = acc])
                 (simp_all add: with_new_transaction_accounts with_new_transaction_exists)
            with first show ?thesis using Inr Some by simp
          next
            case (Some e)
            with False good owner have "post b d (Some k) (Inr td) = (Raised e, d)"
              by (simp add: post_refused)
            then show ?thesis using Inr \<open>tok = Some k\<close> by simp
          qed
        qed
      qed
    qed
  qed
qed



text \<open>
  \<^bold>\<open>Claim C3\<close>, amended. For a parsed payload whose owning account's \<^verbatim>\<open>mono_token\<close> is
  the request's token: when the statement item's id is already stored (as a
  \<^verbatim>\<open>MonoTransaction\<close> for a card, as a \<^verbatim>\<open>JarTransaction\<close> for a jar) the answer is 200
  and the database is unchanged; when it is not, and the database holds the row of the
  payload, the answer is 201 and the database gains exactly one row, at the end of that
  table, and the same request once more is answered 200 and changes nothing. For every
  request at all, posting it twice leaves the database that posting it once leaves. As the
  claim states it, 201 and one new row for every first valid POST, it fails for a payload
  with a value that the columns of the database do not hold.
\<close>

theorem webhook_post_idempotent:
  assumes "objects_get (\<lambda>a. acc_pk a = account_monoaccount (td_account td))
             (mono_accounts d) = Inr acc"
    and "mono_token acc = user_key" and "user_key \<noteq> []"
  shows "(transaction_exists d td \<longrightarrow> post b d (Some user_key) (Inr td) = (Response 200, d)) \<and>
         (\<not> transaction_exists d td \<and> transaction_refused b td = None \<longrightarrow>
            post b d (Some user_key) (Inr td) = (Response 201, with_new_transaction d td) \<and>
            post b (with_new_transaction d td) (Some user_key) (Inr td)
              = (Response 200, with_new_transaction d td)) \<and>
         (\<forall>tok p. snd (post b (snd (post b d tok p)) tok p) = snd (post b d tok p))"
proof (intro conjI impI allI)
  assume "transaction_exists d td"
  with assms show "post b d (Some user_key) (Inr td) = (Response 200, d)"
    by (simp add: post_stored)
next
  assume "\<not> transaction_exists d td \<and> transaction_refused b td = None"
  with assms show "post b d (Some user_key) (Inr td) = (Response 201, with_new_transaction d td)"
    by (simp add: post_new)
next
  show "post b (with_new_transaction d td) (Some user_key) (Inr td)
          = (Response 200, with_new_transaction d td)"
    using assms
    by (intro post_stored[where acc = acc])
       (simp_all add: with_new_transaction_accounts with_new_transaction_exists)
next
  fix tok p
  show "snd (post b (snd (post b d tok p)) tok p) = snd (post b d tok p)"
    by (rule post_twice)
qed

theorem webhook_post_idempotent_witness:
  "\<not> transaction_exists demo_db demo_payload \<and>
   transaction_refused sqlite demo_payload = None \<and>
   post sqlite demo_db (Some ''secret'') (Inr demo_payload)
     = (Response 201, demo_db\<lparr>mono_transactions := [card_transaction_row demo_card demo_item]\<rparr>) \<and>
   post sqlite (demo_db\<lparr>mono_transactions := [card_transaction_row demo_card demo_item]\<rparr>)
        (Some ''secret'') (Inr demo_payload)
     = (Response 200, demo_db\<lparr>mono_transactions := [card_transaction_row demo_card demo_item]\<rparr>)"
proof -
  have h: "objects_get (\<lambda>a. acc_pk a = account_monoaccount (td_account demo_payload))
             (mono_accounts demo_db) = Inr demo_account"
    "mono_token demo_account = ''secret''" "''secret'' \<noteq> []"
    "\<not> transaction_exists demo_db demo_payload"
    "transaction_refused sqlite demo_payload = None"
    by code_simp+
  have w: "with_new_transaction demo_db demo_payload
             = demo_db\<lparr>mono_transactions := [card_transaction_row demo_card demo_item]\<rparr>"
    by (simp add: demo_defs with_new_transaction_def)
  from webhook_post_idempotent[OF h(1,2,3), of sqlite] h(4,5) w
  show ?thesis by simp
qed

text \<open>A first POST whose amount is \<open>2\<^sup>6\<^sup>3\<close>: the payload parses, its id is not stored,
  and the engine refuses the row; the exception leaves the view and nothing is stored.\<close>

definition large_payload :: TransactionData where
  "large_payload =
     \<lparr>td_account = Card demo_card, statement_item = demo_item\<lparr>si_amount := 2 ^ 63\<rparr>\<rparr>"

theorem webhook_amount_out_of_range_counterexample:
  "\<not> transaction_exists demo_db large_payload \<and>
   mono_token demo_account = ''secret'' \<and>
   post sqlite demo_db (Some ''secret'') (Inr large_payload) = (Raised OverflowError, demo_db)"
  by code_simp

section \<open>CPython's \<^verbatim>\<open>datetime\<close> on a given zone\<close>

text \<open>
  An instance of the three functions of the library, after CPython's implementation
  (\<^verbatim>\<open>_datetimemodule.c\<close>, and \<^verbatim>\<open>_strptime.py\<close> for the parser). Days are counted by
  their proleptic Gregorian ordinal (1 for 0001-01-01) with the functions
  \<^verbatim>\<open>_days_before_year\<close>, \<^verbatim>\<open>_days_before_month\<close>, \<^verbatim>\<open>_ymd2ord\<close> and \<^verbatim>\<open>_ord2ymd\<close>;
  seconds are counted as \<^verbatim>\<open>utc_to_seconds\<close> counts them, from the midnight before ordinal
  1, so that the Unix epoch is second \<open>719163 * 86400\<close>.
\<close>

definition DAYS_BEFORE_MONTH :: "int list" where
  "DAYS_BEFORE_MONTH = [-1, 0, 31, 59, 90, 120, 151, 181, 212, 243, 273, 304, 334]"

definition days_before_year :: "int \<Rightarrow> int" where
  "days_before_year year = (let y = year - 1 in y * 365 + y div 4 - y div 100 + y div 400)"

definition days_before_month :: "int \<Rightarrow> int \<Rightarrow> int" where
  "days_before_month year month =
     DAYS_BEFORE_MONTH ! nat month + (if month > 2 \<and> is_leap year then 1 else 0)"

definition ymd2ord :: "int \<Rightarrow> int \<Rightarrow> int \<Rightarrow> int" where
  "ymd2ord year month day = days_before_year year + days_before_month year month + day"

definition DI400Y :: int where "DI400Y = days_before_year 401"
definition DI100Y :: int where "DI100Y = days_before_year 101"
definition DI4Y :: int where "DI4Y = days_before_year 5"

definition ord2ymd :: "int \<Rightarrow> date" where
  "ord2ymd n0 =
     (let n = n0 - 1;
          n400 = n div DI400Y; n = n mod DI400Y;
          year = n400 * 400 + 1;
          n100 = n div DI100Y; n = n mod DI100Y;
          n4 = n div DI4Y; n = n mod DI4Y;
          n1 = n div 365; n = n mod 365;
          year = year + n100 * 100 + n4 * 4 + n1
      in if n1 = 4 \<or> n100 = 4 then (year - 1, 12, 31)
         else
           let leapyear = (n1 = 3 \<and> (n4 \<noteq> 24 \<or> n100 = 3));
               month = (n + 50) div 32;
               preceding = DAYS_BEFORE_MONTH ! nat month + (if month > 2 \<and> leapyear then 1 else 0);
               month' = (if preceding > n then month - 1 else month);
               preceding' =
                 (if preceding > n
                  then preceding - (DAYS_IN_MONTH ! nat month'
                                     + (if month' = 2 \<and> leapyear then 1 else 0))
                  else preceding)
           in (year, month', n - preceding' + 1))"

text \<open>
  The platform's \<^verbatim>\<open>localtime\<close> is given by a zone: at an instant (in Unix time), the
  offset of local time from UTC in seconds, or the exception with which the instant is
  refused (\<^verbatim>\<open>OverflowError\<close> when it is no \<^verbatim>\<open>time_t\<close>, \<^verbatim>\<open>OSError\<close> when
  \<^verbatim>\<open>localtime\<close> fails).

  \<^verbatim>\<open>local(u)\<close> is the local second count of the instant of second count \<open>u\<close>;
  \<^verbatim>\<open>utc_to_seconds\<close> raises \<^verbatim>\<open>ValueError\<close> when the local year is outside
  \<^verbatim>\<open>MINYEAR..MAXYEAR\<close>, that is when the local day is not one of the ordinals 1 to
  3652059 (9999-12-31).
\<close>

type_synonym zone = "int \<Rightarrow> py_error + int"

definition epoch :: int where "epoch = 719163 * 86400"
definition max_fold_seconds :: int where "max_fold_seconds = 24 * 3600"
definition MAXORDINAL :: int where "MAXORDINAL = 3652059"

definition local :: "zone \<Rightarrow> int \<Rightarrow> py_error + int" where
  "local z u =
     (case z (u - epoch) of
        Inl e \<Rightarrow> Inl e
      | Inr offset \<Rightarrow>
          (let civil = u + offset
           in if 1 \<le> civil div 86400 \<and> civil div 86400 \<le> MAXORDINAL then Inr civil
              else Inl ValueError))"

text \<open>\<^verbatim>\<open>local_to_seconds\<close> with \<^verbatim>\<open>fold\<close> = 0: solve \<open>t = local u\<close> for \<open>u\<close>. The first
  guess \<open>u1\<close> uses the offset \<open>a\<close> found at \<open>t\<close> itself. When it is a solution, the
  offset \<open>b\<close> one day earlier tells whether there may be an earlier one; when it is not, \<open>b\<close>
  is the offset found at \<open>u1\<close>. The second guess \<open>u2\<close> uses \<open>b\<close>; when neither guess is a
  solution, \<open>t\<close> is in a gap and the later guess is returned.\<close>

definition local_to_seconds :: "zone \<Rightarrow> int \<Rightarrow> py_error + int" where
  "local_to_seconds z t =
     (case local z t of
        Inl e \<Rightarrow> Inl e
      | Inr lt \<Rightarrow>
          (let a = lt - t; u1 = t - a
           in case local z u1 of
                Inl e \<Rightarrow> Inl e
              | Inr t1 \<Rightarrow>
                  (case (if t1 = t then
                           (case local z (u1 - max_fold_seconds) of
                              Inl e \<Rightarrow> Inl e
                            | Inr lt \<Rightarrow> Inr (lt - (u1 - max_fold_seconds)))
                         else Inr (t1 - u1)) of
                     Inl e \<Rightarrow> Inl e
                   | Inr b \<Rightarrow>
                       if t1 = t \<and> a = b then Inr u1
                       else
                         (let u2 = t - b
                          in case local z u2 of
                               Inl e \<Rightarrow> Inl e
                             | Inr t2 \<Rightarrow>
                                 if t2 = t then Inr u2
                                 else if t1 = t then Inr u1
                                 else Inr (max u1 u2)))))"

text \<open>\<^verbatim>\<open>int(datetime.combine(d, datetime.min.time()).timestamp())\<close> for the naive
  datetime of a midnight; \<^verbatim>\<open>int\<close> of the float is the integer itself.\<close>

definition cpython_timestamp :: "zone \<Rightarrow> date \<Rightarrow> py_error + int" where
  "cpython_timestamp z dt =
     (case dt of (year, month, day) \<Rightarrow>
        (case local_to_seconds z (ymd2ord year month day * 86400) of
           Inl e \<Rightarrow> Inl e
         | Inr seconds \<Rightarrow> Inr (seconds - epoch)))"

text \<open>\<^verbatim>\<open>datetime.fromtimestamp(ts)\<close> (\<^verbatim>\<open>datetime_from_timet_and_us\<close>): the local date
  of the instant. The probes that detect a fold, one day earlier and at the transition
  found, raise when they are refused. Only the date part is kept: the callers read
  \<^verbatim>\<open>.year\<close> and \<^verbatim>\<open>.month\<close>.\<close>

definition cpython_fromtimestamp :: "zone \<Rightarrow> int \<Rightarrow> py_error + date" where
  "cpython_fromtimestamp z ts =
     (case local z (epoch + ts) of
        Inl e \<Rightarrow> Inl e
      | Inr result_seconds \<Rightarrow>
          (case local z (epoch + ts - max_fold_seconds) of
             Inl e \<Rightarrow> Inl e
           | Inr probe_seconds \<Rightarrow>
               (let transition = result_seconds - probe_seconds - max_fold_seconds
                in if transition < 0 then
                     (case local z (epoch + ts + transition) of
                        Inl e \<Rightarrow> Inl e
                      | Inr probe_seconds \<Rightarrow> Inr (ord2ymd (result_seconds div 86400)))
                   else Inr (ord2ymd (result_seconds div 86400)))))"

text \<open>
  \<^verbatim>\<open>datetime.strptime(s, "%Y-%m-%d")\<close>. The format compiles to the regular expression
  \<^verbatim>\<open>(\d\d\d\d)-(1[0-2]|0[1-9]|[1-9])-(3[01]|[12]\d|0[1-9]|[1-9]| [1-9])\<close>, matched at
  the start of the string; text after the match is refused, and so is a date outside the
  calendar. A string is a list of characters of code below 256, among which the decimal
  digits that \<^verbatim>\<open>\d\<close> matches are the ASCII digits; this instance says nothing of strings
  with other characters.
\<close>

definition is_digit :: "char \<Rightarrow> bool" where
  "is_digit c = (c \<in> set ''0123456789'')"

definition digit_value :: "char \<Rightarrow> int" where
  "digit_value c = int (of_char c) - 48"

definition int_of_digits :: "string \<Rightarrow> int" where
  "int_of_digits ds = foldl (\<lambda>acc c. 10 * acc + digit_value c) 0 ds"

definition match_month :: "string \<Rightarrow> (int \<times> string) option" where
  "match_month s =
     (case s of
        [] \<Rightarrow> None
      | [a] \<Rightarrow> if a \<in> set ''123456789'' then Some (digit_value a, []) else None
      | a # b # r \<Rightarrow>
          if a = CHR ''1'' \<and> b \<in> set ''012'' then Some (10 + digit_value b, r)
          else if a = CHR ''0'' \<and> b \<in> set ''123456789'' then Some (digit_value b, r)
          else if a \<in> set ''123456789'' then Some (digit_value a, b # r)
          else None)"

definition match_day :: "string \<Rightarrow> (int \<times> string) option" where
  "match_day s =
     (case s of
        [] \<Rightarrow> None
      | [a] \<Rightarrow> if a \<in> set ''123456789'' then Some (digit_value a, []) else None
      | a # b # r \<Rightarrow>
          if a = CHR ''3'' \<and> b \<in> set ''01'' then Some (30 + digit_value b, r)
          else if a \<in> set ''12'' \<and> is_digit b then Some (10 * digit_value a + digit_value b, r)
          else if a = CHR ''0'' \<and> b \<in> set ''123456789'' then Some (digit_value b, r)
          else if a \<in> set ''123456789'' then Some (digit_value a, b # r)
          else if a = CHR '' '' \<and> b \<in> set ''123456789'' then Some (digit_value b, r)
          else None)"

definition match_dash :: "string \<Rightarrow> string option" where
  "match_dash s = (case s of [] \<Rightarrow> None | c # r \<Rightarrow> if c = CHR ''-'' then Some r else None)"

definition cpython_strptime :: "string \<Rightarrow> py_error + date" where
  "cpython_strptime s =
     (let ys = take 4 s
      in if length ys = 4 \<and> list_all is_digit ys then
           (case match_dash (drop 4 s) of
              None \<Rightarrow> Inl ValueError
            | Some r1 \<Rightarrow>
                (case match_month r1 of
                   None \<Rightarrow> Inl ValueError
                 | Some (month, r2) \<Rightarrow>
                     (case match_dash r2 of
                        None \<Rightarrow> Inl ValueError
                      | Some r3 \<Rightarrow>
                          (case match_day r3 of
                             None \<Rightarrow> Inl ValueError
                           | Some (day, r4) \<Rightarrow>
                               if r4 = [] then date_new (int_of_digits ys) month day
                               else Inl ValueError))))
         else Inl ValueError)"


text \<open>
  Two zones for the worked instances, on a platform with a \<^verbatim>\<open>time_t\<close> of 64 bits whose
  \<^verbatim>\<open>localtime\<close> fails when the year does not fit a C \<^verbatim>\<open>int\<close> (the bounds are those
  of UTC): UTC itself, and the local time of Newfoundland around the end of daylight saving
  time in 2009, which was two and a half hours behind UTC until the instant 1257042660
  (00:01 in the morning of November 1st) and three and a half hours behind from then on.
\<close>

definition localtime_64 :: "(int \<Rightarrow> int) \<Rightarrow> zone" where
  "localtime_64 offset t =
     (if t < - (2 ^ 63) \<or> 2 ^ 63 \<le> t then Inl OverflowError
      else if t < - 67768040609740800 \<or> 67768036191676799 < t then Inl OSError
      else Inr (offset t))"

definition utc :: zone where
  "utc = localtime_64 (\<lambda>t. 0)"


subsection \<open>Bounds of the day count\<close>

lemma days_before_year_bounds:
  assumes "1 \<le> y" "y \<le> 9999"
  shows "0 \<le> days_before_year y \<and> days_before_year y \<le> 3651696"
proof -
  define z where "z = y - 1"
  have z: "0 \<le> z" "z \<le> 9998" using assms by (simp_all add: z_def)
  have a: "z div 4 * 4 \<le> z" "0 \<le> z div 4" using z by simp_all
  have b: "z < z div 100 * 100 + 100" "z div 100 \<le> z div 4"
    using z by (simp_all add: zdiv_mono2 int_div_less_self) 
  have c: "z div 400 * 400 \<le> z" "0 \<le> z div 400" using z by simp_all
  have "days_before_year y = z * 365 + z div 4 - z div 100 + z div 400"
    by (simp add: days_before_year_def z_def Let_def)
  then show ?thesis using z a b c by linarith
qed

lemma days_before_year_ge: 
  assumes "2 \<le> y" shows "365 \<le> days_before_year y"
proof -
  define z where "z = y - 1"
  have z: "1 \<le> z" using assms by (simp_all add: z_def)
  have b: "z div 100 \<le> z div 4" using z by (simp_all add: zdiv_mono2)
  have c: "0 \<le> z div 400" using z by simp_all
  have "days_before_year y = z * 365 + z div 4 - z div 100 + z div 400"
    by (simp add: days_before_year_def z_def Let_def)
  then show ?thesis using z b c by linarith
qed

lemma month_cases:
  "1 \<le> (m::int) \<Longrightarrow> m \<le> 12 \<Longrightarrow>
   m = 1 \<or> m = 2 \<or> m = 3 \<or> m = 4 \<or> m = 5 \<or> m = 6 \<or> m = 7 \<or> m = 8 \<or> m = 9 \<or> m = 10 \<or> m = 11 \<or> m = 12"
  by arith

lemma days_before_month_bounds:
  assumes "1 \<le> m" "m \<le> 12"
  shows "0 \<le> days_before_month y m \<and> days_before_month y m \<le> 335 \<and> (m \<noteq> 1 \<longrightarrow> 31 \<le> days_before_month y m)"
  using month_cases[OF assms]
  by (auto simp: days_before_month_def DAYS_BEFORE_MONTH_def)

lemma days_in_month_bounds:
  assumes "1 \<le> m" "m \<le> 12"
  shows "28 \<le> days_in_month y m \<and> days_in_month y m \<le> 31"
  using month_cases[OF assms]
  by (auto simp: days_in_month_def DAYS_IN_MONTH_def)

lemma ymd2ord_first_bounds:
  assumes "1 \<le> y" "y \<le> 9999" "1 \<le> m" "m \<le> 12"
  shows "1 \<le> ymd2ord y m 1" "ymd2ord y m 1 \<le> 3652032" "(y, m) \<noteq> (1, 1) \<Longrightarrow> 32 \<le> ymd2ord y m 1"
proof -
  note b = days_before_year_bounds[OF assms(1,2)] days_before_month_bounds[OF assms(3,4), of y]
  show "1 \<le> ymd2ord y m 1" "ymd2ord y m 1 \<le> 3652032" using b by (simp_all add: ymd2ord_def)
  assume "(y, m) \<noteq> (1, 1)"
  then consider "m \<noteq> 1" | "2 \<le> y" using assms by force
  then show "32 \<le> ymd2ord y m 1"
  proof cases
    case 1 then show ?thesis using b by (simp add: ymd2ord_def)
  next
    case 2 then show ?thesis using b days_before_year_ge[of y] by (simp add: ymd2ord_def)
  qed
qed


subsection \<open>\<^verbatim>\<open>_ord2ymd\<close> inverts \<^verbatim>\<open>_ymd2ord\<close>\<close>

lemma DI_values: "DI400Y = 146097" "DI100Y = 36524" "DI4Y = 1461"
  by (simp_all add: DI400Y_def DI100Y_def DI4Y_def days_before_year_def)

lemma divmod_facts:
  fixes a k :: int
  assumes "0 < k"
  shows "a = k * (a div k) + a mod k" "0 \<le> a mod k" "a mod k < k"
  using assms by simp_all

text \<open>The month and the day from the day of the year, as the end of \<^verbatim>\<open>_ord2ymd\<close>
  computes them (a name for that part of \<open>ord2ymd\<close>, used in the proofs only).\<close>

definition month_day :: "bool \<Rightarrow> int \<Rightarrow> int \<times> int" where
  "month_day leapyear n =
     (let month = (n + 50) div 32;
          preceding = DAYS_BEFORE_MONTH ! nat month + (if month > 2 \<and> leapyear then 1 else 0);
          month' = (if preceding > n then month - 1 else month);
          preceding' =
            (if preceding > n
             then preceding - (DAYS_IN_MONTH ! nat month'
                                + (if month' = 2 \<and> leapyear then 1 else 0))
             else preceding)
      in (month', n - preceding' + 1))"

lemma month_day_correct:
  assumes "0 \<le> n" "n \<le> 364" "is_leap y = leapyear" "month_day leapyear n = (m, d)"
  shows "1 \<le> m \<and> m \<le> 12 \<and> 1 \<le> d \<and> d \<le> days_in_month y m \<and> days_before_month y m + d = n + 1"
proof -
  define k where "k = (n + 50) div 32"
  have kb: "n + 50 = 32 * k + (n + 50) mod 32" "0 \<le> (n + 50) mod 32" "(n + 50) mod 32 < 32"
    unfolding k_def by simp_all
  then have "1 \<le> k" "k \<le> 12" using assms(1,2) by linarith+
  then have ks: "k = 1 \<or> k = 2 \<or> k = 3 \<or> k = 4 \<or> k = 5 \<or> k = 6 \<or> k = 7 \<or> k = 8 \<or> k = 9 \<or> k = 10 \<or> k = 11 \<or> k = 12"
    by arith
  have r: "32 * k - 50 \<le> n" "n \<le> 32 * k - 19" using kb by linarith+
  have md: "month_day leapyear n =
     (let preceding = DAYS_BEFORE_MONTH ! nat k + (if k > 2 \<and> leapyear then 1 else 0);
          month' = (if preceding > n then k - 1 else k);
          preceding' =
            (if preceding > n
             then preceding - (DAYS_IN_MONTH ! nat month'
                                + (if month' = 2 \<and> leapyear then 1 else 0))
             else preceding)
      in (month', n - preceding' + 1))"
    by (simp add: month_day_def k_def Let_def)
  show ?thesis
    using ks
    apply (elim disjE)
    using assms r md
    by (auto simp: Let_def DAYS_BEFORE_MONTH_def DAYS_IN_MONTH_def days_in_month_def days_before_month_def split: if_splits)
qed


lemma ord2ymd_correct:
  assumes "1 \<le> n" "ord2ymd n = (y, m, d)"
  shows "1 \<le> y \<and> 1 \<le> m \<and> m \<le> 12 \<and> 1 \<le> d \<and> d \<le> days_in_month y m \<and> ymd2ord y m d = n"
proof -
  define N where "N = n - 1"
  define n400 where "n400 = N div 146097"
  define r1 where "r1 = N mod 146097"
  define n100 where "n100 = r1 div 36524"
  define r2 where "r2 = r1 mod 36524"
  define n4 where "n4 = r2 div 1461"
  define r3 where "r3 = r2 mod 1461"
  define n1 where "n1 = r3 div 365"
  define r4 where "r4 = r3 mod 365"
  define Y where "Y = 400 * n400 + 100 * n100 + 4 * n4 + n1 + 1"
  have N: "0 \<le> N" using assms(1) by (simp add: N_def)
  have e1: "N = 146097 * n400 + r1" "0 \<le> r1" "r1 < 146097"
    unfolding n400_def r1_def by simp_all
  have e2: "r1 = 36524 * n100 + r2" "0 \<le> r2" "r2 < 36524"
    unfolding n100_def r2_def by simp_all
  have e3: "r2 = 1461 * n4 + r3" "0 \<le> r3" "r3 < 1461"
    unfolding n4_def r3_def by simp_all
  have e4: "r3 = 365 * n1 + r4" "0 \<le> r4" "r4 < 365"
    unfolding n1_def r4_def by simp_all
  have b: "0 \<le> n400" "0 \<le> n100" "n100 \<le> 4" "0 \<le> n4" "n4 \<le> 24" "0 \<le> n1" "n1 \<le> 4"
    using N e1 e2 e3 e4 by linarith+
  define Y' where "Y' = n400 * 400 + 1 + n100 * 100 + n4 * 4 + n1"
  have o': "ord2ymd n =
     (if n1 = 4 \<or> n100 = 4 then (Y' - 1, 12, 31)
      else (case month_day (n1 = 3 \<and> (n4 \<noteq> 24 \<or> n100 = 3)) r4 of (m', d') \<Rightarrow> (Y', m', d')))"
    by (simp only: ord2ymd_def Let_def DI_values month_day_def N_def n400_def r1_def n100_def
        r2_def n4_def r3_def n1_def r4_def Y'_def prod.case)
  have "Y' = Y" by (simp add: Y'_def Y_def)
  then have o: "ord2ymd n =
     (if n1 = 4 \<or> n100 = 4 then (Y - 1, 12, 31)
      else (case month_day (n1 = 3 \<and> (n4 \<noteq> 24 \<or> n100 = 3)) r4 of (m', d') \<Rightarrow> (Y, m', d')))"
    using o' by simp
  show ?thesis
  proof (cases "n1 = 4 \<or> n100 = 4")
    case True
    then have res: "y = Y - 1" "m = 12" "d = 31" using o assms(2) by simp_all
    define z where "z = Y - 2"
    have lin: "n100 = 4 \<and> r2 = 0 \<and> n4 = 0 \<and> r3 = 0 \<and> n1 = 0 \<and> r4 = 0 \<or>
               n100 \<le> 3 \<and> n1 = 4 \<and> r4 = 0 \<and> n4 \<le> 23"
      using True b e1 e2 e3 e4 by linarith
    have goal: "is_leap (Y - 1) \<and> days_before_year (Y - 1) + 366 = n"
      using lin
    proof (elim disjE)
      assume a: "n100 = 4 \<and> r2 = 0 \<and> n4 = 0 \<and> r3 = 0 \<and> n1 = 0 \<and> r4 = 0"
      then have zv: "z = 400 * n400 + 399" by (simp add: z_def Y_def)
      have z4: "z div 4 = 100 * n400 + 99"
        by (rule int_div_pos_eq[of _ _ _ 3]) (simp_all add: zv)
      have z100: "z div 100 = 4 * n400 + 3"
        by (rule int_div_pos_eq[of _ _ _ 99]) (simp_all add: zv)
      have z400: "z div 400 = n400"
        by (rule int_div_pos_eq[of _ _ _ 399]) (simp_all add: zv)
      have dby: "days_before_year (Y - 1) = 365 * z + (100 * n400 + 99) - (4 * n400 + 3) + n400"
        using z4 z100 z400 by (simp add: days_before_year_def Let_def z_def)
      have y4: "(Y - 1) mod 4 = 0"
        by (rule int_mod_pos_eq[of _ _ "100 * n400 + 100"]) (use a in \<open>simp_all add: Y_def\<close>)
      have y400: "(Y - 1) mod 400 = 0"
        by (rule int_mod_pos_eq[of _ _ "n400 + 1"]) (use a in \<open>simp_all add: Y_def\<close>)
      have "is_leap (Y - 1)" using y4 y400 by (simp add: is_leap_def)
      moreover have "days_before_year (Y - 1) + 366 = n"
        using dby zv a e1 e2 by (simp add: N_def)
      ultimately show ?thesis by simp
    next
      assume a: "n100 \<le> 3 \<and> n1 = 4 \<and> r4 = 0 \<and> n4 \<le> 23"
      then have zv: "z = 400 * n400 + 100 * n100 + 4 * n4 + 3" by (simp add: z_def Y_def)
      have z4: "z div 4 = 100 * n400 + 25 * n100 + n4"
        by (rule int_div_pos_eq[of _ _ _ 3]) (simp_all add: zv)
      have z100: "z div 100 = 4 * n400 + n100"
        by (rule int_div_pos_eq[of _ _ _ "4 * n4 + 3"]) (use a b in \<open>simp_all add: zv\<close>)
      have z400: "z div 400 = n400"
        by (rule int_div_pos_eq[of _ _ _ "100 * n100 + 4 * n4 + 3"]) (use a b in \<open>simp_all add: zv\<close>)
      have dby: "days_before_year (Y - 1) =
                   365 * z + (100 * n400 + 25 * n100 + n4) - (4 * n400 + n100) + n400"
        using z4 z100 z400 by (simp add: days_before_year_def Let_def z_def)
      have y4: "(Y - 1) mod 4 = 0"
        by (rule int_mod_pos_eq[of _ _ "100 * n400 + 25 * n100 + n4 + 1"])
           (use a in \<open>simp_all add: Y_def\<close>)
      have y100: "(Y - 1) mod 100 = 4 * n4 + 4"
        by (rule int_mod_pos_eq[of _ _ "4 * n400 + n100"]) (use a b in \<open>simp_all add: Y_def\<close>)
      have "is_leap (Y - 1)" using y4 y100 b by (simp add: is_leap_def)
      moreover have "days_before_year (Y - 1) + 366 = n"
        using dby zv a e1 e2 e3 e4 by (simp add: N_def)
      ultimately show ?thesis by simp
    qed
    then have "ymd2ord (Y - 1) 12 31 = n"
      by (simp add: ymd2ord_def days_before_month_def DAYS_BEFORE_MONTH_def)
    moreover have "1 \<le> Y - 1" using b lin by (auto simp: Y_def)
    ultimately show ?thesis using res by (simp add: days_in_month_def DAYS_IN_MONTH_def)
  next
    case False
    then have b': "n1 \<le> 3" "n100 \<le> 3" using b by linarith+
    obtain m' d' where md: "month_day (n1 = 3 \<and> (n4 \<noteq> 24 \<or> n100 = 3)) r4 = (m', d')"
      by (cases "month_day (n1 = 3 \<and> (n4 \<noteq> 24 \<or> n100 = 3)) r4")
    then have res: "y = Y" "m = m'" "d = d'" using o assms(2) False by simp_all
    define z where "z = Y - 1"
    have z4: "z div 4 = 100 * n400 + 25 * n100 + n4"
      by (rule int_div_pos_eq[of _ _ _ n1]) (use b b' in \<open>auto simp: z_def Y_def\<close>)
    have z100: "z div 100 = 4 * n400 + n100"
      by (rule int_div_pos_eq[of _ _ _ "4 * n4 + n1"]) (use b b' in \<open>auto simp: z_def Y_def\<close>)
    have z400: "z div 400 = n400"
      by (rule int_div_pos_eq[of _ _ _ "100 * n100 + 4 * n4 + n1"]) (use b b' in \<open>auto simp: z_def Y_def\<close>)
    have dby: "days_before_year Y = N - r4"
      using z4 z100 z400 e1 e2 e3 e4 by (simp add: days_before_year_def Let_def z_def Y_def)
    have leap: "is_leap Y = (n1 = 3 \<and> (n4 \<noteq> 24 \<or> n100 = 3))"
    proof -
      have m4: "Y mod 4 = (if n1 = 3 then 0 else n1 + 1)"
        by (rule int_mod_pos_eq[of _ _ "100 * n400 + 25 * n100 + n4 + (if n1 = 3 then 1 else 0)"])
           (use b b' in \<open>auto simp: Y_def\<close>)
      have m100: "Y mod 100 = (if n1 = 3 \<and> n4 = 24 then 0 else 4 * n4 + n1 + 1)"
        by (rule int_mod_pos_eq[of _ _ "4 * n400 + n100 + (if n1 = 3 \<and> n4 = 24 then 1 else 0)"])
           (use b b' in \<open>auto simp: Y_def\<close>)
      have m400: "Y mod 400 = (if n1 = 3 \<and> n4 = 24 \<and> n100 = 3 then 0 else 100 * n100 + 4 * n4 + n1 + 1)"
        by (rule int_mod_pos_eq[of _ _ "n400 + (if n1 = 3 \<and> n4 = 24 \<and> n100 = 3 then 1 else 0)"])
           (use b b' in \<open>auto simp: Y_def\<close>)
      show ?thesis using m4 m100 m400 b b' by (auto simp: is_leap_def)
    qed
    have "1 \<le> m' \<and> m' \<le> 12 \<and> 1 \<le> d' \<and> d' \<le> days_in_month Y m' \<and> days_before_month Y m' + d' = r4 + 1"
      using e4 by (intro month_day_correct[OF _ _ leap md]) simp_all
    moreover have "1 \<le> Y" using b by (simp add: Y_def)
    ultimately show ?thesis using res dby by (simp add: ymd2ord_def N_def)
  qed
qed

subsection \<open>Years and months do not overlap\<close>

lemma div_succ:
  fixes z k :: int
  assumes "0 < k"
  shows "(z + 1) div k = z div k + (if (z + 1) mod k = 0 then 1 else 0)"
proof (cases "z mod k + 1 = k")
  case True
  have "z + 1 = k * (z div k) + (z mod k + 1)" by simp
  also have "\<dots> = k * (z div k) + k" using True by simp
  also have "\<dots> = k * (z div k + 1) + 0" by (simp add: algebra_simps)
  finally have e: "z + 1 = k * (z div k + 1) + 0" .
  have "(z + 1) div k = z div k + 1"
    by (rule int_div_pos_eq[OF e]) (use assms in simp_all)
  moreover have "(z + 1) mod k = 0"
    by (rule int_mod_pos_eq[OF e]) (use assms in simp_all)
  ultimately show ?thesis by simp
next
  case False
  have r: "0 \<le> z mod k" "z mod k < k" using assms by simp_all
  have e: "z + 1 = k * (z div k) + (z mod k + 1)" by simp
  have "(z + 1) div k = z div k"
    by (rule int_div_pos_eq[OF e]) (use r False in simp_all)
  moreover have "(z + 1) mod k = z mod k + 1"
    by (rule int_mod_pos_eq[OF e]) (use r False in simp_all)
  ultimately show ?thesis using r by simp
qed

lemma mod_100_4: "(y::int) mod 100 = 0 \<Longrightarrow> y mod 4 = 0"
proof -
  assume "y mod 100 = 0"
  then have "100 dvd y" by (simp add: dvd_eq_mod_eq_0)
  moreover have "(4::int) dvd 100" by simp
  ultimately have "4 dvd y" by (rule dvd_trans[rotated])
  then show ?thesis by (simp add: dvd_eq_mod_eq_0)
qed

lemma mod_400_100: "(y::int) mod 400 = 0 \<Longrightarrow> y mod 100 = 0"
proof -
  assume "y mod 400 = 0"
  then have "400 dvd y" by (simp add: dvd_eq_mod_eq_0)
  moreover have "(100::int) dvd 400" by simp
  ultimately have "100 dvd y" by (rule dvd_trans[rotated])
  then show ?thesis by (simp add: dvd_eq_mod_eq_0)
qed

lemma days_before_year_succ:
  "days_before_year (y + 1) = days_before_year y + (if is_leap y then 366 else 365)"
proof -
  define z where "z = y - 1"
  have y: "z + 1 = y" by (simp add: z_def)
  define a4 :: int where "a4 = (if y mod 4 = 0 then 1 else 0)"
  define a100 :: int where "a100 = (if y mod 100 = 0 then 1 else 0)"
  define a400 :: int where "a400 = (if y mod 400 = 0 then 1 else 0)"
  define p4 p100 p400 q4 q100 q400 where
    "p4 = y div 4" and "p100 = y div 100" and "p400 = y div 400" and
    "q4 = z div 4" and "q100 = z div 100" and "q400 = z div 400"
  have 1: "days_before_year (y + 1) = y * 365 + p4 - p100 + p400"
    by (simp add: days_before_year_def Let_def p4_def p100_def p400_def)
  have 2: "days_before_year y = z * 365 + q4 - q100 + q400"
    by (simp add: days_before_year_def Let_def z_def q4_def q100_def q400_def)
  have d4: "p4 = q4 + a4"
    unfolding a4_def p4_def q4_def using div_succ[of 4 z] by (simp only: y)
  have d100: "p100 = q100 + a100"
    unfolding a100_def p100_def q100_def using div_succ[of 100 z] by (simp only: y)
  have d400: "p400 = q400 + a400"
    unfolding a400_def p400_def q400_def using div_succ[of 400 z] by (simp only: y)
  have zy: "z * 365 = y * 365 - 365" by (simp add: z_def algebra_simps)
  have step: "days_before_year (y + 1) = days_before_year y + 365 + a4 - a100 + a400"
    using 1 2 d4 d100 d400 zy by linarith
  have leap: "a4 - a100 + a400 = (if is_leap y then 1 else 0)"
  proof (cases "y mod 4 = 0")
    case False
    then have n100: "y mod 100 \<noteq> 0" using mod_100_4[of y] by metis
    then have "y mod 400 \<noteq> 0" using mod_400_100[of y] by metis
    note this n100
    then show ?thesis using False n100 by (simp add: is_leap_def a4_def a100_def a400_def)
  next
    case c4: True
    show ?thesis
    proof (cases "y mod 100 = 0")
      case False
      then have "y mod 400 \<noteq> 0" using mod_400_100[of y] by metis
      then show ?thesis using False c4 by (simp add: is_leap_def a4_def a100_def a400_def)
    next
      case c100: True
      show ?thesis using c4 c100 by (simp add: is_leap_def a4_def a100_def a400_def)
    qed
  qed
  show ?thesis using step leap by (simp split: if_splits)
qed

lemma days_before_year_mono: "y \<le> y' \<Longrightarrow> days_before_year y \<le> days_before_year y'"
proof (induction y' rule: int_ge_induct)
  case base
  then show ?case by simp
next
  case (step i)
  then show ?case using days_before_year_succ[of i] by (simp split: if_splits)
qed

lemma year_length:
  assumes "1 \<le> m" "m \<le> 12"
  shows "0 \<le> days_before_month y m"
    and "days_before_month y m + days_in_month y m \<le> (if is_leap y then 366 else 365)"
  using month_cases[OF assms]
  by (elim disjE; simp add: days_before_month_def days_in_month_def DAYS_BEFORE_MONTH_def DAYS_IN_MONTH_def)+

lemma year_span:
  assumes "1 \<le> m" "m \<le> 12" "1 \<le> d" "d \<le> days_in_month y m"
  shows "days_before_year y < ymd2ord y m d" "ymd2ord y m d \<le> days_before_year (y + 1)"
proof -
  note l = year_length[OF assms(1,2), of y]
  show "days_before_year y < ymd2ord y m d"
    using l(1) assms(3) by (simp add: ymd2ord_def)
  have "days_before_month y m + d \<le> (if is_leap y then 366 else 365)"
    using l(2) assms(4) by (simp split: if_splits)
  then show "ymd2ord y m d \<le> days_before_year (y + 1)"
    by (simp add: ymd2ord_def days_before_year_succ split: if_splits)
qed

lemma month_span:
  assumes "1 \<le> m" "m \<le> 12" "1 \<le> m'" "m' \<le> 12" "m < m'"
  shows "days_before_month y m + days_in_month y m \<le> days_before_month y m'"
  using month_cases[OF assms(1,2)] month_cases[OF assms(3,4)] assms(5)
  by (elim disjE; simp add: days_before_month_def days_in_month_def DAYS_BEFORE_MONTH_def DAYS_IN_MONTH_def)

lemma next_month_start:
  assumes "1 \<le> m" "m \<le> 12"
  shows "(if m = 12 then ymd2ord (y + 1) 1 1 else ymd2ord y (m + 1) 1)
           = ymd2ord y m 1 + days_in_month y m"
  using month_cases[OF assms]
  by (elim disjE; simp add: ymd2ord_def days_before_year_succ days_before_month_def days_in_month_def DAYS_BEFORE_MONTH_def DAYS_IN_MONTH_def)

lemma ymd2ord_inj:
  assumes v: "1 \<le> m" "m \<le> 12" "1 \<le> d" "d \<le> days_in_month y m"
    and v': "1 \<le> m'" "m' \<le> 12" "1 \<le> d'" "d' \<le> days_in_month y' m'"
    and eq: "ymd2ord y m d = ymd2ord y' m' d'"
  shows "y = y' \<and> m = m' \<and> d = d'"
proof -
  have yy: "y = y'"
  proof (rule ccontr)
    assume "y \<noteq> y'"
    then consider "y + 1 \<le> y'" | "y' + 1 \<le> y" by linarith
    then show False
    proof cases
      case 1
      then show False
        using year_span[OF v] year_span[OF v'] days_before_year_mono[OF 1] eq by linarith
    next
      case 2
      then show False
        using year_span[OF v] year_span[OF v'] days_before_year_mono[OF 2] eq by linarith
    qed
  qed
  have w: "d' \<le> days_in_month y m'" using v'(4) yy by simp
  have e2: "days_before_month y m + d = days_before_month y m' + d'"
    using eq yy by (simp add: ymd2ord_def)
  have mm: "m = m'"
  proof (rule ccontr)
    assume "m \<noteq> m'"
    then consider "m < m'" | "m' < m" by linarith
    then show False
    proof cases
      case 1
      then show False using month_span[OF v(1,2) v'(1,2) 1, of y] e2 v(3,4) v'(3) w by linarith
    next
      case 2
      then show False using month_span[OF v'(1,2) v(1,2) 2, of y] e2 v(3,4) v'(3) w by linarith
    qed
  qed
  then show ?thesis using yy e2 by simp
qed

section \<open>The monthly summary of a jar\<close>

subsection \<open>The ends of the ordered queryset and the budget\<close>












text \<open>The bounds exist exactly when the first day of the month and the first day of the
  next month are dates and both midnights have a timestamp.\<close>

lemma month_bounds_Inr:
  "month_bounds timestamp (y, m, dd) = Inr (s, e) \<longleftrightarrow>
     valid_date (y, m, 1) \<and>
     (if m = 12 then valid_date (y + 1, 1, 1) \<and> timestamp (y + 1, 1, 1) = Inr e
      else valid_date (y, m + 1, 1) \<and> timestamp (y, m + 1, 1) = Inr e) \<and>
     timestamp (y, m, 1) = Inr s"
  by (auto simp: month_bounds_def date_new_def split: sum.splits if_splits)



subsection \<open>Data for the worked instances\<close>

definition demo_jar_transaction :: "string \<Rightarrow> int \<Rightarrow> int \<Rightarrow> int \<Rightarrow> JarTransaction" where
  "demo_jar_transaction i time amount balance =
     \<lparr>jt_account = ''jar1'', jt_id = i, jt_time = time, jt_description = None, jt_mcc = 1,
      jt_original_mcc = None, jt_amount = amount, jt_operation_amount = None,
      jt_currency = Some 1, jt_commission_rate = None, jt_cashback_amount = 0,
      jt_balance = balance, jt_hold = False, jt_comment = None\<rparr>"

definition july_db :: db where
  "july_db = demo_db\<lparr>jar_transactions :=
     [demo_jar_transaction ''b'' 1751400000 (- 300) 9700,
      demo_jar_transaction ''a'' 1751400000 10000 10000,
      demo_jar_transaction ''c'' 1753000000 (- 200) 9500,
      demo_jar_transaction ''z'' 1700000000 5 5]\<rparr>"


definition far_future_db :: db where
  "far_future_db =
     demo_db\<lparr>jar_transactions := [demo_jar_transaction ''x'' 1000000000000 100 100]\<rparr>"

subsection \<open>A month with transactions, a month without\<close>







section \<open>The available months of a jar\<close>

text \<open>The year and month of an instant, as \<^verbatim>\<open>get_available_months\<close> reads them off
  \<^verbatim>\<open>datetime.fromtimestamp\<close>; \<open>None\<close> when the instant has no datetime.\<close>

definition year_month :: "(int \<Rightarrow> py_error + date) \<Rightarrow> int \<Rightarrow> (int \<times> int) option" where
  "year_month fromtimestamp ts =
     (case fromtimestamp ts of Inl e \<Rightarrow> None | Inr (year, month, day) \<Rightarrow> Some (year, month))"

text \<open>The transactions of a jar whose time is dated in the month \<open>m\<close> of the year \<open>y\<close>.\<close>

definition dated_transactions ::
  "(int \<Rightarrow> py_error + date) \<Rightarrow> db \<Rightarrow> MonoJar \<Rightarrow> int \<Rightarrow> int \<Rightarrow> JarTransaction set" where
  "dated_transactions fromtimestamp d jar y m =
     {t \<in> set (jar_transactions d).
        jt_account t = jar_id jar \<and> year_month fromtimestamp (jt_time t) = Some (y, m)}"

lemma traverse_all_Inr:
  "(\<forall>x \<in> set xs. f x = Inr (g x)) \<Longrightarrow> traverse f xs = Inr (map g xs)"
  by (induction xs) simp_all

lemma returned_with:
  "(case x of Inl e \<Rightarrow> False | Inr v \<Rightarrow> P v) \<Longrightarrow> \<exists>v. x = Inr v \<and> P v"
  by (cases x) auto

lemma first_day_valid: "valid_date (y, m, dd) \<Longrightarrow> valid_date (y, m, 1)"
  by (simp add: valid_date_def)

text \<open>
  \<^bold>\<open>Claim C2\<close>, amended. For every jar whose transaction times all have a datetime
  (\<^verbatim>\<open>datetime.fromtimestamp\<close> returns one, and a datetime is a date of the calendar),
  \<^verbatim>\<open>get_available_months\<close> returns a strictly ascending list, hence one without
  repetition, of dates; a date is in the list exactly when its day is 1 and the jar has a
  transaction dated in its year and month; the list is empty when the jar has no
  transaction. As the claim states it, for every jar, it fails: a jar with a stored time
  that \<^verbatim>\<open>datetime.fromtimestamp\<close> refuses has no list.
\<close>

theorem available_months_sorted_distinct:
  assumes "\<forall>t \<in> set (jar_transactions d).
             jt_account t = jar_id jar \<longrightarrow>
               (\<exists>dt. fromtimestamp (jt_time t) = Inr dt \<and> valid_date dt)"
  shows "\<exists>ms. get_available_months fromtimestamp d jar = Inr ms \<and>
              sorted_wrt (<) ms \<and>
              (\<forall>y m dd. ((y, m, dd) \<in> set ms) =
                          (dd = 1 \<and> dated_transactions fromtimestamp d jar y m \<noteq> {})) \<and>
              ((\<forall>t \<in> set (jar_transactions d). jt_account t \<noteq> jar_id jar) \<longrightarrow> ms = [])"
proof -
  define txs where "txs = filter (\<lambda>t. jt_account t = jar_id jar) (jar_transactions d)"
  define timestamps where "timestamps = map jt_time txs"
  define g :: "int \<Rightarrow> date" where "g = (\<lambda>ts. projr (fromtimestamp ts))"
  define ym :: "date \<Rightarrow> int \<times> int" where "ym = (\<lambda>(year, month, day). (year, month))"
  define first_day :: "int \<times> int \<Rightarrow> date" where "first_day = (\<lambda>(y, m). (y, m, 1))"
  define unique_year_month where "unique_year_month = remdups (map ym (map g timestamps))"
  define ms where "ms = sort (map first_day unique_year_month)"
  have ok: "fromtimestamp ts = Inr (g ts) \<and> valid_date (g ts)" if "ts \<in> set timestamps" for ts
  proof -
    from that obtain t where "t \<in> set (jar_transactions d)" "jt_account t = jar_id jar" "ts = jt_time t"
      by (auto simp: timestamps_def txs_def)
    with assms obtain dt where "fromtimestamp ts = Inr dt" "valid_date dt" by blast
    then show ?thesis by (simp add: g_def)
  qed
  have ym_g: "year_month fromtimestamp ts = Some (ym (g ts))" if "ts \<in> set timestamps" for ts
    using ok[OF that] by (cases "g ts") (simp add: year_month_def ym_def)
  have t1: "traverse fromtimestamp timestamps = Inr (map g timestamps)"
    by (rule traverse_all_Inr) (simp add: ok)
  have dn: "date_new y m 1 = Inr (first_day (y, m))" if "(y, m) \<in> set unique_year_month" for y m
  proof -
    from that obtain ts where ts: "ts \<in> set timestamps" "ym (g ts) = (y, m)"
      by (auto simp: unique_year_month_def)
    then obtain dd where "g ts = (y, m, dd)" by (cases "g ts") (auto simp: ym_def)
    with ok[OF ts(1)] have "valid_date (y, m, dd)" by simp
    from first_day_valid[OF this] show ?thesis by (simp add: date_new_def first_day_def)
  qed
  have t2: "traverse (\<lambda>(y, m). date_new y m 1) unique_year_month = Inr (map first_day unique_year_month)"
    by (rule traverse_all_Inr) (auto simp: dn)
  have u': "remdups (map (ym \<circ> g) timestamps) = unique_year_month"
    by (simp add: unique_year_month_def)
  have res: "get_available_months fromtimestamp d jar = Inr ms"
    unfolding get_available_months_def Let_def
    by (simp add: txs_def[symmetric] timestamps_def[symmetric] t1 ym_def[symmetric] u' t2 ms_def)
  have "inj first_day" by (auto simp: inj_on_def first_day_def)
  then have "inj_on first_day (set unique_year_month)" by (rule inj_on_subset) simp
  moreover have "distinct unique_year_month" by (simp add: unique_year_month_def)
  ultimately have "distinct (map first_day unique_year_month)"
    by (simp add: distinct_map)
  then have s: "sorted_wrt (<) ms" by (simp add: strict_sorted_iff ms_def)
  have set_u: "set unique_year_month = {(y, m). dated_transactions fromtimestamp d jar y m \<noteq> {}}"
  proof (rule set_eqI, clarify)
    fix y m
    have "(y, m) \<in> set unique_year_month \<longleftrightarrow> (\<exists>ts \<in> set timestamps. ym (g ts) = (y, m))"
      by (force simp: unique_year_month_def image_iff)
    also have "\<dots> \<longleftrightarrow> (\<exists>ts \<in> set timestamps. year_month fromtimestamp ts = Some (y, m))"
      using ym_g by auto
    also have "\<dots> \<longleftrightarrow> dated_transactions fromtimestamp d jar y m \<noteq> {}"
      by (auto simp: timestamps_def txs_def dated_transactions_def)
    finally show "((y, m) \<in> set unique_year_month) =
                    ((y, m) \<in> {(y, m). dated_transactions fromtimestamp d jar y m \<noteq> {}})"
      by simp
  qed
  have m: "\<forall>y m dd. ((y, m, dd) \<in> set ms) =
                      (dd = 1 \<and> dated_transactions fromtimestamp d jar y m \<noteq> {})"
    using set_u by (auto simp: ms_def first_day_def)
  have e: "(\<forall>t \<in> set (jar_transactions d). jt_account t \<noteq> jar_id jar) \<longrightarrow> ms = []"
  proof
    assume "\<forall>t \<in> set (jar_transactions d). jt_account t \<noteq> jar_id jar"
    then have "txs = []" by (simp add: txs_def filter_empty_conv)
    then show "ms = []" by (simp add: ms_def unique_year_month_def timestamps_def)
  qed
  from res s m e show ?thesis by blast
qed

theorem available_months_sorted_distinct_witness:
  "map (\<lambda>t. cpython_fromtimestamp utc (jt_time t)) (jar_transactions july_db)
     = [Inr (2025, 7, 1), Inr (2025, 7, 1), Inr (2025, 7, 20), Inr (2023, 11, 14)] \<and>
   get_available_months (cpython_fromtimestamp utc) july_db demo_jar
     = Inr [(2023, 11, 1), (2025, 7, 1)] \<and>
   (\<exists>ms. get_available_months (cpython_fromtimestamp utc) july_db demo_jar = Inr ms \<and>
         sorted_wrt (<) ms)"
proof -
  have "\<forall>t \<in> set (jar_transactions july_db).
          jt_account t = jar_id demo_jar \<longrightarrow>
            (case cpython_fromtimestamp utc (jt_time t) of
               Inl e \<Rightarrow> False | Inr dt \<Rightarrow> valid_date dt)"
    by code_simp
  then have h: "\<forall>t \<in> set (jar_transactions july_db).
      jt_account t = jar_id demo_jar \<longrightarrow>
        (\<exists>dt. cpython_fromtimestamp utc (jt_time t) = Inr dt \<and> valid_date dt)"
    using returned_with by blast
  have v: "map (\<lambda>t. cpython_fromtimestamp utc (jt_time t)) (jar_transactions july_db)
     = [Inr (2025, 7, 1), Inr (2025, 7, 1), Inr (2025, 7, 20), Inr (2023, 11, 14)]"
    by code_simp
  have "get_available_months (cpython_fromtimestamp utc) july_db demo_jar
          = Inr [(2023, 11, 1), (2025, 7, 1)]"
    by code_simp
  with available_months_sorted_distinct[OF h] v show ?thesis by blast
qed

text \<open>A jar with a transaction at the instant \<open>10\<^sup>1\<^sup>2\<close>, in the year 33658.\<close>

theorem available_months_out_of_range_counterexample:
  "map jt_time (filter (\<lambda>t. jt_account t = jar_id demo_jar) (jar_transactions far_future_db))
     = [1000000000000] \<and>
   cpython_fromtimestamp utc 1000000000000 = Inl ValueError \<and>
   get_available_months (cpython_fromtimestamp utc) far_future_db demo_jar = Inl ValueError"
  by code_simp

section \<open>Access control (\<^verbatim>\<open>views.py\<close>, \<^verbatim>\<open>MonoBankAccessMixin\<close>)\<close>

text \<open>
  \<^verbatim>\<open>request.user\<close> is a \<^verbatim>\<open>User\<close> of the application \<^verbatim>\<open>account\<close>, which is not among
  the sources. The mixin reads two things of it: the flag \<^verbatim>\<open>is_superuser\<close> and the result
  of \<^verbatim>\<open>get_related_tg_ids(include_self=True, recursive=False)\<close>, kept here as the field
  \<open>related_tg_ids\<close>. The class method \<^verbatim>\<open>User.expand_tg_ids_with_family\<close> is a parameter
  \<open>expand\<close> of the model; it may raise.
\<close>

record User =
  is_superuser :: bool
  related_tg_ids :: "string list"

text \<open>\<^verbatim>\<open>str.split(",")\<close>.\<close>

fun split_comma :: "string \<Rightarrow> string list" where
  "split_comma [] = [[]]"
| "split_comma (c # cs) =
     (if c = CHR '','' then [] # split_comma cs
      else (case split_comma cs of [] \<Rightarrow> [[c]] | w # ws \<Rightarrow> (c # w) # ws))"

text \<open>A Python set is the list of its elements without repetition; the order in which
  \<^verbatim>\<open>list(...)\<close> reads a set is not specified, and the callers use the result in
  \<^verbatim>\<open>__in\<close> filters only.\<close>

definition get_accessible_user_tg_ids ::
  "(string list \<Rightarrow> py_error + string list) \<Rightarrow> User \<Rightarrow> string \<Rightarrow> string option \<Rightarrow> bool
     \<Rightarrow> string list option" where
  "get_accessible_user_tg_ids expand user action users_param with_family =
     (if is_superuser user then
        (case users_param of
           None \<Rightarrow> None
         | Some u \<Rightarrow>
             if u \<noteq> [] \<and> action = ''list'' then
               (let user_ids = split_comma u
                in if with_family then
                     (case expand user_ids of Inl e \<Rightarrow> Some user_ids | Inr ids \<Rightarrow> Some ids)
                   else Some user_ids)
             else None)
      else
        (let accessible_ids = remdups (related_tg_ids user)
         in case users_param of
              None \<Rightarrow> Some accessible_ids
            | Some u \<Rightarrow>
                if u \<noteq> [] then
                  (let requested_ids = remdups (split_comma u);
                       requested_ids =
                         (if with_family then
                            (case expand requested_ids of
                               Inl e \<Rightarrow> requested_ids
                             | Inr ids \<Rightarrow> remdups ids)
                          else requested_ids)
                   in Some (filter (\<lambda>x. x \<in> set accessible_ids) requested_ids))
                else Some accessible_ids))"

text \<open>The owner of an entity, through the joins of the lookups
  \<^verbatim>\<open>monoaccount__user__tg_id\<close> and \<^verbatim>\<open>account__monoaccount__user__tg_id\<close>.\<close>

definition account_tg_ids :: "db \<Rightarrow> nat \<Rightarrow> string list" where
  "account_tg_ids d pk = map acc_user_tg_id (filter (\<lambda>a. acc_pk a = pk) (mono_accounts d))"

definition card_owner_tg_ids :: "db \<Rightarrow> MonoCard \<Rightarrow> string list" where
  "card_owner_tg_ids d c = account_tg_ids d (card_monoaccount c)"

definition jar_owner_tg_ids :: "db \<Rightarrow> MonoJar \<Rightarrow> string list" where
  "jar_owner_tg_ids d j = account_tg_ids d (jar_monoaccount j)"

definition mono_transaction_owner_tg_ids :: "db \<Rightarrow> MonoTransaction \<Rightarrow> string list" where
  "mono_transaction_owner_tg_ids d t =
     concat (map (card_owner_tg_ids d) (filter (\<lambda>c. card_id c = mt_account t) (mono_cards d)))"

definition jar_transaction_owner_tg_ids :: "db \<Rightarrow> JarTransaction \<Rightarrow> string list" where
  "jar_transaction_owner_tg_ids d t =
     concat (map (jar_owner_tg_ids d) (filter (\<lambda>j. jar_id j = jt_account t) (mono_jars d)))"

definition tg_id_in :: "string list \<Rightarrow> string list \<Rightarrow> bool" where
  "tg_id_in ids owners = (\<exists>tg \<in> set owners. tg \<in> set ids)"

text \<open>\<^verbatim>\<open>str(v).lower() in ("1", "true", "yes")\<close> for a query parameter.\<close>

definition lower_char :: "char \<Rightarrow> char" where
  "lower_char c = (if CHR ''A'' \<le> c \<and> c \<le> CHR ''Z'' then char_of (of_char c + (32::nat)) else c)"

definition truthy :: "string \<Rightarrow> bool" where
  "truthy v = (map lower_char v \<in> set [''1'', ''true'', ''yes''])"

text \<open>\<^verbatim>\<open>MonoCardViewSet.get_queryset\<close>; the query parameter \<^verbatim>\<open>users\<close>.\<close>

definition card_queryset ::
  "(string list \<Rightarrow> py_error + string list) \<Rightarrow> db \<Rightarrow> User \<Rightarrow> string \<Rightarrow> string option
     \<Rightarrow> MonoCard list" where
  "card_queryset expand d user action users =
     (let queryset = sort_key card_id (filter card_is_active (mono_cards d))
      in case get_accessible_user_tg_ids expand user action users False of
           None \<Rightarrow> queryset
         | Some accessible_tg_ids \<Rightarrow>
             filter (\<lambda>c. tg_id_in accessible_tg_ids (card_owner_tg_ids d c)) queryset)"

text \<open>\<^verbatim>\<open>MonoJarViewSet.get_queryset\<close>; the query parameters \<^verbatim>\<open>users\<close>,
  \<^verbatim>\<open>is_budget\<close> and \<^verbatim>\<open>with_family\<close>.\<close>

definition jar_queryset ::
  "(string list \<Rightarrow> py_error + string list) \<Rightarrow> db \<Rightarrow> User \<Rightarrow> string \<Rightarrow> string option
     \<Rightarrow> string option \<Rightarrow> string option \<Rightarrow> MonoJar list" where
  "jar_queryset expand d user action users is_budget with_family =
     (let with_family_bool = (case with_family of None \<Rightarrow> False | Some v \<Rightarrow> truthy v);
          queryset = sort_key jar_id (filter jar_is_active (mono_jars d));
          queryset =
            (case get_accessible_user_tg_ids expand user action users with_family_bool of
               None \<Rightarrow> queryset
             | Some accessible_tg_ids \<Rightarrow>
                 filter (\<lambda>j. tg_id_in accessible_tg_ids (jar_owner_tg_ids d j)) queryset)
      in case is_budget of
           None \<Rightarrow> queryset
         | Some v \<Rightarrow> filter (\<lambda>j. jar_is_budget j = truthy v) queryset)"

text \<open>\<^verbatim>\<open>MonoJarTransactionViewSet.get_queryset\<close>; the query parameters \<^verbatim>\<open>users\<close>,
  \<^verbatim>\<open>jars\<close> and \<^verbatim>\<open>time_from\<close>. A \<^verbatim>\<open>time_from\<close> that does not parse, or has no
  timestamp, leaves the queryset as it is.\<close>

definition jar_transaction_queryset ::
  "(string \<Rightarrow> py_error + date) \<Rightarrow> (date \<Rightarrow> py_error + int)
     \<Rightarrow> (string list \<Rightarrow> py_error + string list) \<Rightarrow> db \<Rightarrow> User \<Rightarrow> string \<Rightarrow> string option
     \<Rightarrow> string option \<Rightarrow> string option \<Rightarrow> JarTransaction list" where
  "jar_transaction_queryset strptime timestamp expand d user action users jar_ids time_from =
     (let queryset = sort_key (\<lambda>t. (- jt_time t, jt_id t)) (jar_transactions d);
          queryset =
            (case jar_ids of
               None \<Rightarrow> queryset
             | Some js \<Rightarrow>
                 if js \<noteq> [] then filter (\<lambda>t. jt_account t \<in> set (split_comma js)) queryset
                 else queryset);
          queryset =
            (case time_from of
               None \<Rightarrow> queryset
             | Some tf \<Rightarrow>
                 if tf \<noteq> [] then
                   (case strptime tf of
                      Inl e \<Rightarrow> queryset
                    | Inr dt \<Rightarrow>
                        (case timestamp dt of
                           Inl e \<Rightarrow> queryset
                         | Inr epoch_from \<Rightarrow> filter (\<lambda>t. epoch_from \<le> jt_time t) queryset))
                 else queryset)
      in case get_accessible_user_tg_ids expand user action users False of
           None \<Rightarrow> queryset
         | Some accessible_tg_ids \<Rightarrow>
             filter (\<lambda>t. tg_id_in accessible_tg_ids (jar_transaction_owner_tg_ids d t)) queryset)"

text \<open>\<^verbatim>\<open>MonoTransactionViewSet.get_queryset\<close>; the query parameters \<^verbatim>\<open>users\<close> and
  \<^verbatim>\<open>cards\<close>.\<close>

definition mono_transaction_queryset ::
  "(string list \<Rightarrow> py_error + string list) \<Rightarrow> db \<Rightarrow> User \<Rightarrow> string \<Rightarrow> string option
     \<Rightarrow> string option \<Rightarrow> MonoTransaction list" where
  "mono_transaction_queryset expand d user action users card_ids =
     (let queryset = sort_key (\<lambda>t. (- mt_time t, mt_id t)) (mono_transactions d);
          queryset =
            (case card_ids of
               None \<Rightarrow> queryset
             | Some cs \<Rightarrow>
                 if cs \<noteq> [] then filter (\<lambda>t. mt_account t \<in> set (split_comma cs)) queryset
                 else queryset)
      in case get_accessible_user_tg_ids expand user action users False of
           None \<Rightarrow> queryset
         | Some accessible_tg_ids \<Rightarrow>
             filter (\<lambda>t. tg_id_in accessible_tg_ids (mono_transaction_owner_tg_ids d t)) queryset)"

subsection \<open>What a requester who is not a superuser can reach\<close>

definition requested_tg_ids ::
  "(string list \<Rightarrow> py_error + string list) \<Rightarrow> string \<Rightarrow> bool \<Rightarrow> string set" where
  "requested_tg_ids expand u with_family =
     (if with_family then
        (case expand (remdups (split_comma u)) of
           Inl e \<Rightarrow> set (split_comma u)
         | Inr ids \<Rightarrow> set ids)
      else set (split_comma u))"

lemma accessible_no_users:
  assumes "\<not> is_superuser user" and "users_param = None \<or> users_param = Some []"
  shows "get_accessible_user_tg_ids expand user action users_param with_family
           = Some (remdups (related_tg_ids user))"
  using assms by (auto simp: get_accessible_user_tg_ids_def)

lemma accessible_users:
  assumes "\<not> is_superuser user" and "users_param = Some u" and "u \<noteq> []"
  shows "\<exists>ids. get_accessible_user_tg_ids expand user action users_param with_family = Some ids \<and>
               set ids = requested_tg_ids expand u with_family \<inter> set (related_tg_ids user)"
  using assms
  by (auto simp: get_accessible_user_tg_ids_def requested_tg_ids_def Let_def split: sum.splits)

lemma accessible_subset:
  assumes "\<not> is_superuser user"
  shows "\<exists>ids. get_accessible_user_tg_ids expand user action users_param with_family = Some ids \<and>
               set ids \<subseteq> set (related_tg_ids user)"
proof (cases "users_param = None \<or> users_param = Some []")
  case True
  from accessible_no_users[OF assms this] show ?thesis by simp
next
  case False
  then obtain u where "users_param = Some u" "u \<noteq> []" by (cases users_param) auto
  from accessible_users[OF assms this] show ?thesis by blast
qed

lemma filter_key_distinct:
  "distinct (map k xs) \<Longrightarrow> length (filter (\<lambda>x. k x = v) xs) \<le> 1"
proof (induction xs)
  case Nil
  then show ?case by simp
next
  case (Cons x xs)
  show ?case
  proof (cases "k x = v")
    case True
    then have "\<forall>y \<in> set xs. k y \<noteq> v" using Cons.prems by (auto simp: image_iff)
    then have "filter (\<lambda>x. k x = v) xs = []" by (simp add: filter_empty_conv)
    then show ?thesis using True by simp
  next
    case False
    then show ?thesis using Cons by simp
  qed
qed

lemma account_tg_ids_single:
  "distinct (map acc_pk (mono_accounts d)) \<Longrightarrow> length (account_tg_ids d pk) \<le> 1"
  using filter_key_distinct[of acc_pk "mono_accounts d" pk] by (simp add: account_tg_ids_def)

lemma concat_single:
  assumes "length xs \<le> 1" and "\<forall>x. length (f x) \<le> 1"
  shows "length (concat (map f xs)) \<le> 1"
proof (cases xs)
  case Nil
  then show ?thesis by simp
next
  case (Cons x ys)
  then have "ys = []" using assms(1) by simp
  then show ?thesis using Cons assms(2) by simp
qed

lemma mono_transaction_owner_single:
  assumes "distinct (map acc_pk (mono_accounts d))" and "distinct (map card_id (mono_cards d))"
  shows "length (mono_transaction_owner_tg_ids d t) \<le> 1"
  unfolding mono_transaction_owner_tg_ids_def
  by (rule concat_single)
     (use assms filter_key_distinct[of card_id "mono_cards d"] account_tg_ids_single in
       \<open>simp_all add: card_owner_tg_ids_def\<close>)

lemma jar_transaction_owner_single:
  assumes "distinct (map acc_pk (mono_accounts d))" and "distinct (map jar_id (mono_jars d))"
  shows "length (jar_transaction_owner_tg_ids d t) \<le> 1"
  unfolding jar_transaction_owner_tg_ids_def
  by (rule concat_single)
     (use assms filter_key_distinct[of jar_id "mono_jars d"] account_tg_ids_single in
       \<open>simp_all add: jar_owner_tg_ids_def\<close>)

lemma single_owner_within:
  assumes "tg_id_in ids owners" and "length owners \<le> 1" and "set ids \<subseteq> A"
  shows "owners \<noteq> [] \<and> set owners \<subseteq> A"
proof -
  from assms(1) obtain tg where tg: "tg \<in> set owners" "tg \<in> set ids" by (auto simp: tg_id_in_def)
  then obtain rest where "owners = tg # rest" using assms(2) by (cases owners) auto
  then have "owners = [tg]" using assms(2) by simp
  then show ?thesis using tg assms(3) by auto
qed

lemma card_queryset_owner:
  assumes "\<not> is_superuser user" and "c \<in> set (card_queryset expand d user action users)"
  shows "\<exists>ids. set ids \<subseteq> set (related_tg_ids user) \<and> tg_id_in ids (card_owner_tg_ids d c)"
proof -
  from accessible_subset[OF assms(1)] obtain ids where
    i: "get_accessible_user_tg_ids expand user action users False = Some ids"
       "set ids \<subseteq> set (related_tg_ids user)" by blast
  then have "tg_id_in ids (card_owner_tg_ids d c)"
    using assms(2) by (simp add: card_queryset_def Let_def)
  with i show ?thesis by blast
qed

lemma jar_queryset_owner:
  assumes "\<not> is_superuser user"
    and "j \<in> set (jar_queryset expand d user action users is_budget with_family)"
  shows "\<exists>ids. set ids \<subseteq> set (related_tg_ids user) \<and> tg_id_in ids (jar_owner_tg_ids d j)"
proof -
  define wf where "wf = (case with_family of None \<Rightarrow> False | Some v \<Rightarrow> truthy v)"
  from accessible_subset[OF assms(1)] obtain ids where
    i: "get_accessible_user_tg_ids expand user action users wf = Some ids"
       "set ids \<subseteq> set (related_tg_ids user)" by blast
  then have "tg_id_in ids (jar_owner_tg_ids d j)"
    using assms(2) by (cases is_budget) (simp_all add: jar_queryset_def Let_def wf_def[symmetric])
  with i show ?thesis by blast
qed

lemma jar_transaction_queryset_owner:
  assumes "\<not> is_superuser user"
    and "t \<in> set (jar_transaction_queryset strptime timestamp expand d user action users jar_ids time_from)"
  shows "\<exists>ids. set ids \<subseteq> set (related_tg_ids user) \<and>
               tg_id_in ids (jar_transaction_owner_tg_ids d t)"
proof -
  from accessible_subset[OF assms(1)] obtain ids where
    i: "get_accessible_user_tg_ids expand user action users False = Some ids"
       "set ids \<subseteq> set (related_tg_ids user)" by blast
  then have "tg_id_in ids (jar_transaction_owner_tg_ids d t)"
    using assms(2) by (simp add: jar_transaction_queryset_def Let_def)
  with i show ?thesis by blast
qed

lemma mono_transaction_queryset_owner:
  assumes "\<not> is_superuser user"
    and "t \<in> set (mono_transaction_queryset expand d user action users card_ids)"
  shows "\<exists>ids. set ids \<subseteq> set (related_tg_ids user) \<and>
               tg_id_in ids (mono_transaction_owner_tg_ids d t)"
proof -
  from accessible_subset[OF assms(1)] obtain ids where
    i: "get_accessible_user_tg_ids expand user action users False = Some ids"
       "set ids \<subseteq> set (related_tg_ids user)" by blast
  then have "tg_id_in ids (mono_transaction_owner_tg_ids d t)"
    using assms(2) by (simp add: mono_transaction_queryset_def Let_def)
  with i show ?thesis by blast
qed


definition demo_user :: User where
  "demo_user = \<lparr>is_superuser = False, related_tg_ids = [''111'', ''333'']\<rparr>"

text \<open>
  \<^bold>\<open>Claim C4\<close>, amended. For a requester who is not a superuser,
  \<^verbatim>\<open>get_accessible_user_tg_ids\<close> returns a list whose elements all are among the
  requester's related tg_ids. With no \<^verbatim>\<open>users\<close> parameter, or an empty one, the elements
  are exactly those tg_ids. With a non-empty \<^verbatim>\<open>users\<close> parameter they are exactly the
  requested tg_ids that are among them, where the requested tg_ids are the comma-separated
  parts of the parameter, replaced by their family expansion when \<open>with_family\<close> is set and
  the expansion does not raise. Consequently, when primary keys are unique, every card, jar,
  card transaction and jar transaction of the list querysets has an owner, and its tg_id is
  among the requester's related tg_ids. As the claim states it, the intersection for every
  \<^verbatim>\<open>users\<close> parameter, it fails for the empty parameter, which the guard
  \<^verbatim>\<open>if users_param:\<close> treats as absent.
\<close>

theorem accessible_tg_ids_within_family:
  assumes "\<not> is_superuser user"
  shows "(\<exists>ids. get_accessible_user_tg_ids expand user action users_param with_family = Some ids \<and>
            set ids \<subseteq> set (related_tg_ids user) \<and>
            (users_param = None \<or> users_param = Some [] \<longrightarrow>
               set ids = set (related_tg_ids user)) \<and>
            (\<forall>u. users_param = Some u \<and> u \<noteq> [] \<longrightarrow>
               set ids = requested_tg_ids expand u with_family \<inter> set (related_tg_ids user))) \<and>
         (distinct (map acc_pk (mono_accounts d)) \<longrightarrow>
            (\<forall>c \<in> set (card_queryset expand d user action users_param).
               card_owner_tg_ids d c \<noteq> [] \<and>
               set (card_owner_tg_ids d c) \<subseteq> set (related_tg_ids user)) \<and>
            (\<forall>j \<in> set (jar_queryset expand d user action users_param is_budget family_param).
               jar_owner_tg_ids d j \<noteq> [] \<and>
               set (jar_owner_tg_ids d j) \<subseteq> set (related_tg_ids user)) \<and>
            (distinct (map card_id (mono_cards d)) \<longrightarrow>
               (\<forall>t \<in> set (mono_transaction_queryset expand d user action users_param card_ids).
                  mono_transaction_owner_tg_ids d t \<noteq> [] \<and>
                  set (mono_transaction_owner_tg_ids d t) \<subseteq> set (related_tg_ids user))) \<and>
            (distinct (map jar_id (mono_jars d)) \<longrightarrow>
               (\<forall>t \<in> set (jar_transaction_queryset strptime timestamp expand d user action users_param jar_ids
                               time_from).
                  jar_transaction_owner_tg_ids d t \<noteq> [] \<and>
                  set (jar_transaction_owner_tg_ids d t) \<subseteq> set (related_tg_ids user))))"
proof (intro conjI impI ballI)
  show "\<exists>ids. get_accessible_user_tg_ids expand user action users_param with_family = Some ids \<and>
            set ids \<subseteq> set (related_tg_ids user) \<and>
            (users_param = None \<or> users_param = Some [] \<longrightarrow>
               set ids = set (related_tg_ids user)) \<and>
            (\<forall>u. users_param = Some u \<and> u \<noteq> [] \<longrightarrow>
               set ids = requested_tg_ids expand u with_family \<inter> set (related_tg_ids user))"
  proof (cases "users_param = None \<or> users_param = Some []")
    case True
    from accessible_no_users[OF assms this, of expand action with_family] True
    show ?thesis by auto
  next
    case False
    then obtain u where u: "users_param = Some u" "u \<noteq> []" by (cases users_param) auto
    from accessible_users[OF assms this, of expand action with_family] u
    show ?thesis by auto
  qed
next
  fix c
  assume "distinct (map acc_pk (mono_accounts d))"
    and "c \<in> set (card_queryset expand d user action users_param)"
  then show "card_owner_tg_ids d c \<noteq> []" "set (card_owner_tg_ids d c) \<subseteq> set (related_tg_ids user)"
    using card_queryset_owner[OF assms] single_owner_within account_tg_ids_single
    by (metis card_owner_tg_ids_def)+
next
  fix j
  assume "distinct (map acc_pk (mono_accounts d))"
    and "j \<in> set (jar_queryset expand d user action users_param is_budget family_param)"
  then show "jar_owner_tg_ids d j \<noteq> []" "set (jar_owner_tg_ids d j) \<subseteq> set (related_tg_ids user)"
    using jar_queryset_owner[OF assms] single_owner_within account_tg_ids_single
    by (metis jar_owner_tg_ids_def)+
next
  fix t
  assume "distinct (map acc_pk (mono_accounts d))" "distinct (map card_id (mono_cards d))"
    and "t \<in> set (mono_transaction_queryset expand d user action users_param card_ids)"
  then show "mono_transaction_owner_tg_ids d t \<noteq> []"
    "set (mono_transaction_owner_tg_ids d t) \<subseteq> set (related_tg_ids user)"
    using mono_transaction_queryset_owner[OF assms] single_owner_within
      mono_transaction_owner_single
    by metis+
next
  fix t
  assume "distinct (map acc_pk (mono_accounts d))" "distinct (map jar_id (mono_jars d))"
    and "t \<in> set (jar_transaction_queryset strptime timestamp expand d user action users_param jar_ids time_from)"
  then show "jar_transaction_owner_tg_ids d t \<noteq> []"
    "set (jar_transaction_owner_tg_ids d t) \<subseteq> set (related_tg_ids user)"
    using jar_transaction_queryset_owner[OF assms] single_owner_within
      jar_transaction_owner_single
    by metis+
qed

theorem accessible_tg_ids_within_family_witness:
  "\<not> is_superuser demo_user \<and>
   get_accessible_user_tg_ids Inr demo_user ''list'' (Some ''111,222'') False = Some [''111''] \<and>
   (\<exists>ids. get_accessible_user_tg_ids Inr demo_user ''list'' (Some ''111,222'') False = Some ids \<and>
          set ids = set (split_comma ''111,222'') \<inter> set (related_tg_ids demo_user))"
proof -
  have n: "\<not> is_superuser demo_user" by (simp add: demo_user_def)
  have r: "requested_tg_ids Inr ''111,222'' False = set (split_comma ''111,222'')"
    by (simp add: requested_tg_ids_def)
  have v: "get_accessible_user_tg_ids Inr demo_user ''list'' (Some ''111,222'') False = Some [''111'']"
    by code_simp
  from accessible_tg_ids_within_family[OF n, of Inr "''list''" "Some ''111,222''" False] r n v
  show ?thesis by auto
qed

theorem accessible_tg_ids_empty_users_counterexample:
  "\<not> is_superuser demo_user \<and>
   get_accessible_user_tg_ids Inr demo_user ''list'' (Some []) False = Some [''111'', ''333''] \<and>
   set (split_comma []) \<inter> set (related_tg_ids demo_user) = {}"
  by code_simp

section \<open>The month-summary endpoint (\<^verbatim>\<open>views.py\<close>, \<^verbatim>\<open>MonoJarViewSet.month_summary\<close>)\<close>

text \<open>
  The action begins with \<^verbatim>\<open>self.get_object()\<close> of the REST framework: the row of the
  primary key \<^verbatim>\<open>pk\<close> of the URL in the queryset of \<^verbatim>\<open>get_queryset\<close> (the filter
  backends that \<^verbatim>\<open>filter_queryset\<close> applies are those of the settings, which are not
  among the sources; none is taken to be set), \<^verbatim>\<open>Http404\<close> when there is none, then
  \<^verbatim>\<open>has_object_permission\<close> of the permission class, \<^verbatim>\<open>PermissionDenied\<close> when it
  returns False. The framework answers \<^verbatim>\<open>Http404\<close> with the status 404 and
  \<^verbatim>\<open>PermissionDenied\<close> with 403. The requester is an authenticated user.

  \<^verbatim>\<open>has_object_permission\<close> reads \<^verbatim>\<open>obj.monoaccount.user.tg_id\<close> behind
  \<^verbatim>\<open>hasattr(obj, "monoaccount")\<close>, which is False when the account is missing.
\<close>

definition has_object_permission :: "db \<Rightarrow> User \<Rightarrow> MonoJar \<Rightarrow> py_error + bool" where
  "has_object_permission d user obj =
     (if is_superuser user then Inr True
      else
        (case objects_get (\<lambda>a. acc_pk a = jar_monoaccount obj) (mono_accounts d) of
           Inl DoesNotExist \<Rightarrow> Inr False
         | Inl e \<Rightarrow> Inl e
         | Inr account \<Rightarrow> Inr (acc_user_tg_id account \<in> set (related_tg_ids user))))"

definition get_object ::
  "(string list \<Rightarrow> py_error + string list) \<Rightarrow> db \<Rightarrow> User \<Rightarrow> string \<Rightarrow> string option
     \<Rightarrow> string option \<Rightarrow> string option \<Rightarrow> string \<Rightarrow> py_error + MonoJar" where
  "get_object expand d user action users is_budget with_family pk =
     (case objects_get (\<lambda>j. jar_id j = pk)
             (jar_queryset expand d user action users is_budget with_family) of
        Inl DoesNotExist \<Rightarrow> Inl Http404
      | Inl e \<Rightarrow> Inl e
      | Inr obj \<Rightarrow>
          (case has_object_permission d user obj of
             Inl e \<Rightarrow> Inl e
           | Inr allowed \<Rightarrow> if allowed then Inr obj else Inl PermissionDenied))"

text \<open>The action itself; \<open>month_param\<close> is the \<^verbatim>\<open>month\<close> query parameter, \<open>None\<close> when
  the request has none. Every exception of the parser is caught; an exception of
  \<^verbatim>\<open>get_month_summary\<close> is raised outside the \<^verbatim>\<open>try\<close> block and leaves the view.\<close>

datatype body = Error string | Detail string | Summary summary

definition month_summary ::
  "(string \<Rightarrow> py_error + date) \<Rightarrow> (date \<Rightarrow> py_error + int)
     \<Rightarrow> (string list \<Rightarrow> py_error + string list) \<Rightarrow> db \<Rightarrow> User \<Rightarrow> string option
     \<Rightarrow> string option \<Rightarrow> string option \<Rightarrow> string \<Rightarrow> string option
     \<Rightarrow> py_error + nat \<times> body" where
  "month_summary strptime timestamp expand d user users is_budget with_family pk month_param =
     (case get_object expand d user ''month_summary'' users is_budget with_family pk of
        Inl Http404 \<Rightarrow> Inr (404, Detail ''Not found.'')
      | Inl PermissionDenied \<Rightarrow>
          Inr (403, Detail ''You do not have permission to perform this action.'')
      | Inl e \<Rightarrow> Inl e
      | Inr jar \<Rightarrow>
          (case month_param of
             None \<Rightarrow> Inr (400, Error ''query param 'month' is required (e.g. 2025-07-01)'')
           | Some month_str \<Rightarrow>
               if month_str = [] then
                 Inr (400, Error ''query param 'month' is required (e.g. 2025-07-01)'')
               else
                 (case strptime month_str of
                    Inl e \<Rightarrow> Inr (400, Error ''invalid 'month' format, expected YYYY-MM-01'')
                  | Inr parsed \<Rightarrow>
                      if snd (snd parsed) \<noteq> 1 then
                        Inr (400, Error ''month must be the first day of month: YYYY-MM-01'')
                      else
                        (case get_month_summary strptime timestamp d jar (MonthDate parsed) of
                           Inl e \<Rightarrow> Inl e
                         | Inr s \<Rightarrow> Inr (200, Summary s)))))"

text \<open>A user who is related to nobody the data of the worked instances knows.\<close>

definition stranger :: User where
  "stranger = \<lparr>is_superuser = False, related_tg_ids = [''999'']\<rparr>"

text \<open>
  \<^bold>\<open>Claim C10\<close>, amended. For a jar that \<^verbatim>\<open>get_object()\<close> returns to the requester,
  the endpoint answers 400 exactly when the \<^verbatim>\<open>month\<close> parameter is missing or empty, or
  the parser refuses it, or it parses to a date whose day is not 1; and for a parameter that
  parses to the first day of a month at which \<^verbatim>\<open>get_month_summary\<close> returns, the answer
  is 200 with what it returns. When \<^verbatim>\<open>get_object()\<close> finds no jar of that key among
  those the requester may see, the answer is 404 whatever the parameter. As the claim
  states it, for every request, it fails for such a jar.
\<close>

theorem month_summary_endpoint_status:
  "(get_object expand d user ''month_summary'' users is_budget with_family pk = Inr jar \<longrightarrow>
      ((\<exists>b. month_summary strptime timestamp expand d user users is_budget with_family pk
               month_param = Inr (400, b)) \<longleftrightarrow>
         (month_param = None \<or> month_param = Some [] \<or>
          (\<exists>s. month_param = Some s \<and>
               (case strptime s of Inl e \<Rightarrow> True | Inr parsed \<Rightarrow> snd (snd parsed) \<noteq> 1)))) \<and>
      (\<forall>s y m r. month_param = Some s \<and> s \<noteq> [] \<and> strptime s = Inr (y, m, 1) \<and>
          get_month_summary strptime timestamp d jar (MonthDate (y, m, 1)) = Inr r \<longrightarrow>
          month_summary strptime timestamp expand d user users is_budget with_family pk
            month_param = Inr (200, Summary r))) \<and>
   (get_object expand d user ''month_summary'' users is_budget with_family pk = Inl Http404 \<longrightarrow>
      month_summary strptime timestamp expand d user users is_budget with_family pk month_param
        = Inr (404, Detail ''Not found.''))"
proof (intro conjI impI allI)
  assume g: "get_object expand d user ''month_summary'' users is_budget with_family pk = Inr jar"
  show "(\<exists>b. month_summary strptime timestamp expand d user users is_budget with_family pk
               month_param = Inr (400, b)) \<longleftrightarrow>
         (month_param = None \<or> month_param = Some [] \<or>
          (\<exists>s. month_param = Some s \<and>
               (case strptime s of Inl e \<Rightarrow> True | Inr parsed \<Rightarrow> snd (snd parsed) \<noteq> 1)))"
  proof (cases month_param)
    case None
    then show ?thesis using g by (simp add: month_summary_def)
  next
    case (Some s)
    show ?thesis
    proof (cases "s = []")
      case True
      then show ?thesis using Some g by (simp add: month_summary_def)
    next
      case False
      then show ?thesis using Some g
        by (auto simp: month_summary_def split: sum.splits)
    qed
  qed
next
  fix s y m r
  assume g: "get_object expand d user ''month_summary'' users is_budget with_family pk = Inr jar"
    and a: "month_param = Some s \<and> s \<noteq> [] \<and> strptime s = Inr (y, m, 1) \<and>
          get_month_summary strptime timestamp d jar (MonthDate (y, m, 1)) = Inr r"
  then show "month_summary strptime timestamp expand d user users is_budget with_family pk
            month_param = Inr (200, Summary r)"
    by (simp add: month_summary_def)
next
  assume "get_object expand d user ''month_summary'' users is_budget with_family pk = Inl Http404"
  then show "month_summary strptime timestamp expand d user users is_budget with_family pk
               month_param = Inr (404, Detail ''Not found.'')"
    by (simp add: month_summary_def)
qed

theorem month_summary_endpoint_status_witness:
  "get_object Inr july_db demo_user ''month_summary'' None None None ''jar1'' = Inr demo_jar \<and>
   cpython_strptime ''2025-07-01'' = Inr (2025, 7, 1) \<and>
   month_summary cpython_strptime (cpython_timestamp utc) Inr july_db demo_user None None None
       ''jar1'' (Some ''2025-07-01'')
     = Inr (200, Summary \<lparr>start_balance = 10000, budget = 10000, end_balance = 9500,
                           spent = - 9500\<rparr>) \<and>
   (\<exists>b. month_summary cpython_strptime (cpython_timestamp utc) Inr july_db demo_user None None
           None ''jar1'' (Some ''2025-07-15'') = Inr (400, b)) \<and>
   get_object Inr july_db demo_user ''month_summary'' None None None ''jar7'' = Inl Http404 \<and>
   month_summary cpython_strptime (cpython_timestamp utc) Inr july_db demo_user None None None
       ''jar7'' (Some ''2025-07-01'') = Inr (404, Detail ''Not found.'')"
proof -
  have o: "get_object Inr july_db demo_user ''month_summary'' None None None ''jar1''
             = Inr demo_jar"
    by code_simp
  have p: "cpython_strptime ''2025-07-01'' = Inr (2025, 7, 1)" by code_simp
  have g: "get_month_summary cpython_strptime (cpython_timestamp utc) july_db demo_jar
             (MonthDate (2025, 7, 1)) =
     Inr \<lparr>start_balance = 10000, budget = 10000, end_balance = 9500, spent = - 9500\<rparr>"
    by code_simp
  have q: "(case cpython_strptime ''2025-07-15'' of
              Inl e \<Rightarrow> True | Inr parsed \<Rightarrow> snd (snd parsed) \<noteq> 1)"
    by code_simp
  have n: "get_object Inr july_db demo_user ''month_summary'' None None None ''jar7''
             = Inl Http404"
    by code_simp
  from month_summary_endpoint_status
         [of Inr july_db demo_user None None None "''jar1''" demo_jar cpython_strptime
             "cpython_timestamp utc" "Some ''2025-07-01''"] o p g
  have 1: "month_summary cpython_strptime (cpython_timestamp utc) Inr july_db demo_user None
             None None ''jar1'' (Some ''2025-07-01'')
     = Inr (200, Summary \<lparr>start_balance = 10000, budget = 10000, end_balance = 9500,
                           spent = - 9500\<rparr>)"
    by simp
  from month_summary_endpoint_status
         [of Inr july_db demo_user None None None "''jar1''" demo_jar cpython_strptime
             "cpython_timestamp utc" "Some ''2025-07-15''"] o q
  have 2: "\<exists>b. month_summary cpython_strptime (cpython_timestamp utc) Inr july_db demo_user None
             None None ''jar1'' (Some ''2025-07-15'') = Inr (400, b)"
    by blast
  from month_summary_endpoint_status
         [of Inr july_db demo_user None None None "''jar7''" demo_jar cpython_strptime
             "cpython_timestamp utc" "Some ''2025-07-01''"] n
  have 3: "month_summary cpython_strptime (cpython_timestamp utc) Inr july_db demo_user None
             None None ''jar7'' (Some ''2025-07-01'') = Inr (404, Detail ''Not found.'')"
    by blast
  from o p 1 2 n 3 show ?thesis by blast
qed

text \<open>The jar of the worked instances is stored and active, and the stranger is not
  related to its owner: a well-formed first day of a month is answered 404, and so is a
  request without the parameter.\<close>

theorem month_summary_endpoint_not_found_counterexample:
  "jar_id demo_jar = ''jar1'' \<and> demo_jar \<in> set (mono_jars july_db) \<and>
   cpython_strptime ''2025-07-01'' = Inr (2025, 7, 1) \<and>
   month_summary cpython_strptime (cpython_timestamp utc) Inr july_db stranger None None None
       ''jar1'' (Some ''2025-07-01'') = Inr (404, Detail ''Not found.'') \<and>
   month_summary cpython_strptime (cpython_timestamp utc) Inr july_db stranger None None None
       ''jar1'' None = Inr (404, Detail ''Not found.'')"
  by code_simp

section \<open>Ingestion (\<^verbatim>\<open>models.py\<close>)\<close>

text \<open>
  The payloads are the dictionaries of the bank's API after \<^verbatim>\<open>decamelize\<close>, with the
  keys the code reads or passes on as model fields. A task started with
  \<^verbatim>\<open>apply_async\<close> is not run by its caller: it is returned as a value. A task body
  returns the database it leaves and the exception that ended it, if any: each ORM call is
  committed as it is made, so what was written before an exception stays written. The call
  \<^verbatim>\<open>get_transactions()\<close> that ends the card and jar tasks when \<^verbatim>\<open>update_transactions\<close>
  is set asks the bank over HTTP and starts further tasks; it writes no table and is left
  out.
\<close>

record CardData =
  cd_id :: string
  cd_send_id :: string
  cd_currency_code :: int
  cd_cashback_type :: string
  cd_balance :: int
  cd_credit_limit :: int
  cd_masked_pan :: "string list option"
  cd_type :: string
  cd_iban :: string

record JarData =
  jd_id :: string
  jd_send_id :: string
  jd_title :: string
  jd_description :: string
  jd_currency_code :: int
  jd_balance :: int
  jd_goal :: "int option"

record ClientInfo =
  accounts :: "CardData list"
  jars :: "JarData list"

datatype task =
    CreateCardFromWebhook string CardData bool
  | CreateJarFromWebhook string JarData bool

text \<open>An \<^verbatim>\<open>AutoField\<close> primary key: one more than the largest key of the table.\<close>

definition next_pk :: "nat list \<Rightarrow> nat" where
  "next_pk pks = Suc (foldr max pks 0)"

text \<open>\<^verbatim>\<open>Currency.create_unknown_currency\<close>: the row, and its \<^verbatim>\<open>save()\<close>.\<close>

definition unknown_currency :: "db \<Rightarrow> int \<Rightarrow> Currency" where
  "unknown_currency d currency_code =
     \<lparr>cur_pk = next_pk (map cur_pk (currencies d)), cur_code = currency_code,
      cur_name = ''XXX'', cur_flag = None, cur_symbol = None\<rparr>"

definition create_unknown_currency ::
  "backend \<Rightarrow> db \<Rightarrow> int \<Rightarrow> (py_error + Currency) \<times> db" where
  "create_unknown_currency b d currency_code =
     (let new_currency = unknown_currency d currency_code
      in case refuses_currency b new_currency of
           Some e \<Rightarrow> (Inl e, d)
         | None \<Rightarrow> (Inr new_currency, d\<lparr>currencies := currencies d @ [new_currency]\<rparr>))"

text \<open>The \<^verbatim>\<open>try\<close> \<^verbatim>\<open>Currency.objects.get(code=...)\<close> \<^verbatim>\<open>except Currency.DoesNotExist\<close> of
  every ingestion function.\<close>

definition get_or_create_unknown_currency ::
  "backend \<Rightarrow> db \<Rightarrow> int \<Rightarrow> (py_error + Currency) \<times> db" where
  "get_or_create_unknown_currency b d currency_code =
     (case objects_get (\<lambda>c. cur_code c = currency_code) (currencies d) of
        Inr currency \<Rightarrow> (Inr currency, d)
      | Inl DoesNotExist \<Rightarrow> create_unknown_currency b d currency_code
      | Inl e \<Rightarrow> (Inl e, d))"

text \<open>\<^verbatim>\<open>MonoAccount.create_cards_jars\<close> with a payload. The two \<^verbatim>\<open>update\<close> queries set
  one boolean column.\<close>

definition create_cards_jars :: "db \<Rightarrow> MonoAccount \<Rightarrow> ClientInfo \<Rightarrow> db \<times> task list" where
  "create_cards_jars d self data =
     (let cards = accounts data;
          jars = jars data;
          active_card_ids = map cd_id (filter (\<lambda>card. cd_id card \<noteq> []) cards);
          active_jar_ids = map jd_id (filter (\<lambda>jar. jd_id jar \<noteq> []) jars);
          d = d\<lparr>mono_cards :=
                  map (\<lambda>c. if card_monoaccount c = acc_pk self \<and> card_id c \<notin> set active_card_ids
                           then c\<lparr>card_is_active := False\<rparr> else c)
                      (mono_cards d)\<rparr>;
          d = d\<lparr>mono_jars :=
                  map (\<lambda>j. if jar_monoaccount j = acc_pk self \<and> jar_id j \<notin> set active_jar_ids
                           then j\<lparr>jar_is_active := False\<rparr> else j)
                      (mono_jars d)\<rparr>
      in (d, map (\<lambda>card. CreateCardFromWebhook (acc_user_tg_id self) card True) cards
             @ map (\<lambda>jar. CreateJarFromWebhook (acc_user_tg_id self) jar True) jars))"

text \<open>\<^verbatim>\<open>MonoCard.create_card_from_webhook\<close>. The loop over \<^verbatim>\<open>card_data.items()\<close>
  assigns the keys left after \<^verbatim>\<open>currency_code\<close> is popped, and \<^verbatim>\<open>currency\<close> is not
  among them: \<open>card_with_payload\<close> is the stored card after the loop and the assignment
  to \<^verbatim>\<open>is_active\<close>, \<open>new_card\<close> is the row that \<^verbatim>\<open>get_or_create\<close> inserts when the id
  is not stored.\<close>

definition card_with_payload :: "MonoCard \<Rightarrow> CardData \<Rightarrow> MonoCard" where
  "card_with_payload mono_card card_data =
     mono_card\<lparr>card_id := cd_id card_data,
       card_send_id := cd_send_id card_data,
       card_cashback_type := cd_cashback_type card_data,
       card_balance := cd_balance card_data,
       card_credit_limit := cd_credit_limit card_data,
       card_masked_pan := cd_masked_pan card_data,
       card_type := cd_type card_data,
       card_iban := cd_iban card_data,
       card_is_active := True\<rparr>"

definition new_card :: "MonoAccount \<Rightarrow> nat \<Rightarrow> CardData \<Rightarrow> MonoCard" where
  "new_card mono_account currency card_data =
     \<lparr>card_monoaccount = acc_pk mono_account, card_id = cd_id card_data,
      card_send_id = cd_send_id card_data, card_currency = currency,
      card_cashback_type = cd_cashback_type card_data,
      card_balance = cd_balance card_data,
      card_credit_limit = cd_credit_limit card_data,
      card_masked_pan = cd_masked_pan card_data,
      card_type = cd_type card_data, card_iban = cd_iban card_data,
      card_is_active = True\<rparr>"

definition create_card_from_webhook ::
  "backend \<Rightarrow> db \<Rightarrow> string \<Rightarrow> CardData \<Rightarrow> py_error option \<times> db" where
  "create_card_from_webhook b d tg_id card_data =
     (case objects_get (\<lambda>a. acc_user_tg_id a = tg_id) (mono_accounts d) of
        Inl e \<Rightarrow> (Some e, d)
      | Inr mono_account \<Rightarrow>
          (case get_or_create_unknown_currency b d (cd_currency_code card_data) of
             (Inl e, d) \<Rightarrow> (Some e, d)
           | (Inr currency, d) \<Rightarrow>
               (case objects_get (\<lambda>c. card_id c = cd_id card_data) (mono_cards d) of
                  Inr mono_card \<Rightarrow>
                    (case refuses_card b (card_with_payload mono_card card_data) of
                       Some e \<Rightarrow> (Some e, d)
                     | None \<Rightarrow>
                         (None,
                          d\<lparr>mono_cards :=
                              save_row card_id (card_with_payload mono_card card_data)
                                (mono_cards d)\<rparr>))
                | Inl DoesNotExist \<Rightarrow>
                    (case refuses_card b (new_card mono_account (cur_pk currency) card_data) of
                       Some e \<Rightarrow> (Some e, d)
                     | None \<Rightarrow>
                         (None,
                          d\<lparr>mono_cards :=
                              mono_cards d @
                              [new_card mono_account (cur_pk currency) card_data]\<rparr>))
                | Inl e \<Rightarrow> (Some e, d))))"

text \<open>\<^verbatim>\<open>MonoJar.create_jar_from_webhook\<close>; \<^verbatim>\<open>description\<close> and \<^verbatim>\<open>currency_code\<close>
  are popped before the loop. A new jar gets the column defaults \<^verbatim>\<open>is_budget\<close> = False
  and \<^verbatim>\<open>invested\<close> = 0.\<close>

definition jar_with_payload :: "MonoJar \<Rightarrow> JarData \<Rightarrow> MonoJar" where
  "jar_with_payload mono_jar jar_data =
     mono_jar\<lparr>jar_id := jd_id jar_data,
       jar_send_id := jd_send_id jar_data,
       jar_title := jd_title jar_data,
       jar_balance := jd_balance jar_data,
       jar_goal := jd_goal jar_data,
       jar_is_active := True\<rparr>"

definition new_jar :: "MonoAccount \<Rightarrow> nat \<Rightarrow> JarData \<Rightarrow> MonoJar" where
  "new_jar mono_account currency jar_data =
     \<lparr>jar_monoaccount = acc_pk mono_account, jar_id = jd_id jar_data,
      jar_send_id = jd_send_id jar_data, jar_title = jd_title jar_data,
      jar_currency = currency, jar_balance = jd_balance jar_data,
      jar_goal = jd_goal jar_data, jar_is_budget = False,
      jar_is_active = True, jar_invested = 0\<rparr>"

definition create_jar_from_webhook ::
  "backend \<Rightarrow> db \<Rightarrow> string \<Rightarrow> JarData \<Rightarrow> py_error option \<times> db" where
  "create_jar_from_webhook b d tg_id jar_data =
     (case objects_get (\<lambda>a. acc_user_tg_id a = tg_id) (mono_accounts d) of
        Inl e \<Rightarrow> (Some e, d)
      | Inr mono_account \<Rightarrow>
          (case get_or_create_unknown_currency b d (jd_currency_code jar_data) of
             (Inl e, d) \<Rightarrow> (Some e, d)
           | (Inr currency, d) \<Rightarrow>
               (case objects_get (\<lambda>j. jar_id j = jd_id jar_data) (mono_jars d) of
                  Inr mono_jar \<Rightarrow>
                    (case refuses_jar b (jar_with_payload mono_jar jar_data) of
                       Some e \<Rightarrow> (Some e, d)
                     | None \<Rightarrow>
                         (None,
                          d\<lparr>mono_jars :=
                              save_row jar_id (jar_with_payload mono_jar jar_data)
                                (mono_jars d)\<rparr>))
                | Inl DoesNotExist \<Rightarrow>
                    (case refuses_jar b (new_jar mono_account (cur_pk currency) jar_data) of
                       Some e \<Rightarrow> (Some e, d)
                     | None \<Rightarrow>
                         (None,
                          d\<lparr>mono_jars :=
                              mono_jars d @
                              [new_jar mono_account (cur_pk currency) jar_data]\<rparr>))
                | Inl e \<Rightarrow> (Some e, d))))"

text \<open>A statement item as the transaction tasks receive it. The key \<^verbatim>\<open>mcc\<close> may be
  missing (\<open>None\<close>): the code catches the \<^verbatim>\<open>KeyError\<close>. Every other key is a column of
  the model and is passed on to \<^verbatim>\<open>get_or_create\<close>; \<^verbatim>\<open>JarTransaction\<close> has no
  \<^verbatim>\<open>receipt_id\<close> column.\<close>

record TransactionItem =
  ti_id :: string
  ti_time :: int
  ti_description :: "string option"
  ti_mcc :: "int option"
  ti_original_mcc :: "int option"
  ti_amount :: int
  ti_operation_amount :: "int option"
  ti_currency_code :: int
  ti_commission_rate :: "int option"
  ti_cashback_amount :: int
  ti_balance :: int
  ti_hold :: bool
  ti_receipt_id :: "string option"
  ti_comment :: "string option"

record JarTransactionItem =
  ji_id :: string
  ji_time :: int
  ji_description :: "string option"
  ji_mcc :: "int option"
  ji_original_mcc :: "int option"
  ji_amount :: int
  ji_operation_amount :: "int option"
  ji_currency_code :: int
  ji_commission_rate :: "int option"
  ji_cashback_amount :: int
  ji_balance :: int
  ji_hold :: bool
  ji_comment :: "string option"

text \<open>The name of the fallback category, the Ukrainian word for ``other'' (four Cyrillic
  letters), as the bytes of its UTF-8 encoding.\<close>

definition other_category_name :: string where
  "other_category_name =
     [CHR 0xD0, CHR 0x86, CHR 0xD0, CHR 0xBD, CHR 0xD1, CHR 0x88, CHR 0xD0, CHR 0xB5]"

text \<open>\<^verbatim>\<open>Category.objects.get_or_create(name=...)\<close>; a new category gets the column
  defaults.\<close>

definition new_category :: "db \<Rightarrow> string \<Rightarrow> Category" where
  "new_category d name =
     \<lparr>cat_pk = next_pk (map cat_pk (categories d)), cat_name = name,
      cat_symbol = None, cat_user_defined = False\<rparr>"

definition get_or_create_category ::
  "backend \<Rightarrow> db \<Rightarrow> string \<Rightarrow> (py_error + Category) \<times> db" where
  "get_or_create_category b d name =
     (case objects_get (\<lambda>c. cat_name c = name) (categories d) of
        Inr category \<Rightarrow> (Inr category, d)
      | Inl DoesNotExist \<Rightarrow>
          (case refuses_category b (new_category d name) of
             Some e \<Rightarrow> (Inl e, d)
           | None \<Rightarrow>
               (Inr (new_category d name),
                d\<lparr>categories := categories d @ [new_category d name]\<rparr>))
      | Inl e \<Rightarrow> (Inl e, d))"

text \<open>The \<^verbatim>\<open>mso\<close> of a payload: its \<^verbatim>\<open>mcc\<close>, or the number of stored
  \<^verbatim>\<open>CategoryMSO\<close> rows when it has none.\<close>

definition payload_mso :: "db \<Rightarrow> int option \<Rightarrow> int" where
  "payload_mso d mcc = (case mcc of Some m \<Rightarrow> m | None \<Rightarrow> int (length (category_msos d)))"

text \<open>The \<^verbatim>\<open>try\<close> \<^verbatim>\<open>CategoryMSO.objects.get(mso=mso)\<close>
  \<^verbatim>\<open>except ObjectDoesNotExist\<close> of the two transaction tasks, with
  \<^verbatim>\<open>CategoryMSO.objects.create(category=category, mso=mso)\<close> in the handler.\<close>

definition new_category_mso :: "db \<Rightarrow> nat \<Rightarrow> int \<Rightarrow> CategoryMSO" where
  "new_category_mso d category mso_number =
     \<lparr>mso_pk = next_pk (map mso_pk (category_msos d)), mso_category = category,
      mso = mso_number\<rparr>"

definition get_or_create_mcc ::
  "backend \<Rightarrow> db \<Rightarrow> int \<Rightarrow> (py_error + CategoryMSO) \<times> db" where
  "get_or_create_mcc b d mso_number =
     (case objects_get (\<lambda>m. mso m = mso_number) (category_msos d) of
        Inr mcc \<Rightarrow> (Inr mcc, d)
      | Inl DoesNotExist \<Rightarrow>
          (case get_or_create_category b d other_category_name of
             (Inl e, d) \<Rightarrow> (Inl e, d)
           | (Inr category, d) \<Rightarrow>
               (case refuses_category_mso b
                       (new_category_mso d (cat_pk category) mso_number) of
                  Some e \<Rightarrow> (Inl e, d)
                | None \<Rightarrow>
                    (Inr (new_category_mso d (cat_pk category) mso_number),
                     d\<lparr>category_msos :=
                         category_msos d @
                         [new_category_mso d (cat_pk category) mso_number]\<rparr>)))
      | Inl e \<Rightarrow> (Inl e, d))"

text \<open>\<^verbatim>\<open>Model.objects.get_or_create(**kwargs)\<close> with every column given, the primary key
  among them: the stored row equal to the given one is found; otherwise the row is inserted.
  The insertion raises when the database refuses the row, and \<^verbatim>\<open>IntegrityError\<close> when
  the key is taken.\<close>

definition get_or_create_row ::
  "('a \<Rightarrow> py_error option) \<Rightarrow> ('a \<Rightarrow> 'k) \<Rightarrow> 'a \<Rightarrow> 'a list \<Rightarrow> py_error + 'a list" where
  "get_or_create_row refuses key row rows =
     (case objects_get (\<lambda>r. r = row) rows of
        Inr r \<Rightarrow> Inr rows
      | Inl DoesNotExist \<Rightarrow>
          (case refuses row of
             Some e \<Rightarrow> Inl e
           | None \<Rightarrow>
               if \<exists>r \<in> set rows. key r = key row then Inl IntegrityError
               else Inr (rows @ [row]))
      | Inl e \<Rightarrow> Inl e)"

text \<open>\<^verbatim>\<open>MonoTransaction.create_transaction_from_webhook\<close>; the \<^verbatim>\<open>IntegrityError\<close>
  of \<^verbatim>\<open>get_or_create\<close> is caught and dropped.\<close>

definition mono_transaction_of ::
  "MonoCard \<Rightarrow> nat \<Rightarrow> nat \<Rightarrow> TransactionItem \<Rightarrow> MonoTransaction" where
  "mono_transaction_of account mcc currency transaction_data =
     \<lparr>mt_id = ti_id transaction_data,
      mt_time = ti_time transaction_data,
      mt_description = ti_description transaction_data,
      mt_mcc = mcc,
      mt_original_mcc = ti_original_mcc transaction_data,
      mt_amount = ti_amount transaction_data,
      mt_operation_amount = ti_operation_amount transaction_data,
      mt_currency = Some currency,
      mt_commission_rate = ti_commission_rate transaction_data,
      mt_balance = ti_balance transaction_data,
      mt_hold = ti_hold transaction_data,
      mt_receipt_id = ti_receipt_id transaction_data,
      mt_account = card_id account,
      mt_cashback_amount = ti_cashback_amount transaction_data,
      mt_comment = ti_comment transaction_data\<rparr>"

definition create_transaction_from_webhook ::
  "backend \<Rightarrow> db \<Rightarrow> string \<Rightarrow> TransactionItem \<Rightarrow> py_error option \<times> db" where
  "create_transaction_from_webhook b d card_id' transaction_data =
     (case objects_get (\<lambda>c. card_id c = card_id') (mono_cards d) of
        Inl e \<Rightarrow> (Some e, d)
      | Inr account \<Rightarrow>
          (case get_or_create_mcc b d (payload_mso d (ti_mcc transaction_data)) of
             (Inl e, d) \<Rightarrow> (Some e, d)
           | (Inr mcc, d) \<Rightarrow>
               (case get_or_create_unknown_currency b d (ti_currency_code transaction_data) of
                  (Inl e, d) \<Rightarrow> (Some e, d)
                | (Inr currency, d) \<Rightarrow>
                    (case get_or_create_row (refuses_mono_transaction b) mt_id
                            (mono_transaction_of account (mso_pk mcc) (cur_pk currency)
                               transaction_data)
                            (mono_transactions d) of
                       Inr rows \<Rightarrow> (None, d\<lparr>mono_transactions := rows\<rparr>)
                     | Inl IntegrityError \<Rightarrow> (None, d)
                     | Inl e \<Rightarrow> (Some e, d)))))"

text \<open>\<^verbatim>\<open>JarTransaction.create_jar_transaction_from_webhook\<close>; no exception of
  \<^verbatim>\<open>get_or_create\<close> is caught.\<close>

definition jar_transaction_of ::
  "MonoJar \<Rightarrow> nat \<Rightarrow> nat \<Rightarrow> JarTransactionItem \<Rightarrow> JarTransaction" where
  "jar_transaction_of account mcc currency transaction_data =
     \<lparr>jt_account = jar_id account,
      jt_id = ji_id transaction_data,
      jt_time = ji_time transaction_data,
      jt_description = ji_description transaction_data,
      jt_mcc = mcc,
      jt_original_mcc = ji_original_mcc transaction_data,
      jt_amount = ji_amount transaction_data,
      jt_operation_amount = ji_operation_amount transaction_data,
      jt_currency = Some currency,
      jt_commission_rate = ji_commission_rate transaction_data,
      jt_cashback_amount = ji_cashback_amount transaction_data,
      jt_balance = ji_balance transaction_data,
      jt_hold = ji_hold transaction_data,
      jt_comment = ji_comment transaction_data\<rparr>"

definition create_jar_transaction_from_webhook ::
  "backend \<Rightarrow> db \<Rightarrow> string \<Rightarrow> JarTransactionItem \<Rightarrow> py_error option \<times> db" where
  "create_jar_transaction_from_webhook b d card_id' transaction_data =
     (case objects_get (\<lambda>j. jar_id j = card_id') (mono_jars d) of
        Inl e \<Rightarrow> (Some e, d)
      | Inr account \<Rightarrow>
          (case get_or_create_mcc b d (payload_mso d (ji_mcc transaction_data)) of
             (Inl e, d) \<Rightarrow> (Some e, d)
           | (Inr mcc, d) \<Rightarrow>
               (case get_or_create_unknown_currency b d (ji_currency_code transaction_data) of
                  (Inl e, d) \<Rightarrow> (Some e, d)
                | (Inr currency, d) \<Rightarrow>
                    (case get_or_create_row (refuses_jar_transaction b) jt_id
                            (jar_transaction_of account (mso_pk mcc) (cur_pk currency)
                               transaction_data)
                            (jar_transactions d) of
                       Inr rows \<Rightarrow> (None, d\<lparr>jar_transactions := rows\<rparr>)
                     | Inl e \<Rightarrow> (Some e, d)))))"

text \<open>What it is for the currency of a payload to be attached to a row ingested from it,
  between the database before and the database after: the row's foreign key \<open>fk\<close> is the
  key of the stored \<^verbatim>\<open>Currency\<close> with the payload's code, and the table is as it was,
  when there was one; otherwise the table has one more row, with that code, the name
  \<^verbatim>\<open>XXX\<close> and a key no other row has, and \<open>fk\<close> is its key.\<close>

definition currency_attached :: "db \<Rightarrow> db \<Rightarrow> int \<Rightarrow> nat \<Rightarrow> bool" where
  "currency_attached d d' code fk =
     (if code \<in> cur_code ` set (currencies d)
      then currencies d' = currencies d \<and>
           (\<exists>c \<in> set (currencies d). cur_code c = code \<and> cur_pk c = fk)
      else currencies d' =
             currencies d @
             [\<lparr>cur_pk = fk, cur_code = code, cur_name = ''XXX'', cur_flag = None,
               cur_symbol = None\<rparr>] \<and>
           fk \<notin> cur_pk ` set (currencies d))"

text \<open>The same for the \<^verbatim>\<open>mcc\<close> of a transaction payload: the stored
  \<^verbatim>\<open>CategoryMSO\<close> with that \<^verbatim>\<open>mso\<close> and no new row in either table, or one new
  \<^verbatim>\<open>CategoryMSO\<close> with that \<^verbatim>\<open>mso\<close> whose category is a stored category of the
  fallback name.\<close>

definition mcc_attached :: "db \<Rightarrow> db \<Rightarrow> int \<Rightarrow> nat \<Rightarrow> bool" where
  "mcc_attached d d' m fk =
     (if m \<in> mso ` set (category_msos d)
      then category_msos d' = category_msos d \<and> categories d' = categories d \<and>
           (\<exists>x \<in> set (category_msos d). mso x = m \<and> mso_pk x = fk)
      else (\<exists>category \<in> set (categories d').
              cat_name category = other_category_name \<and>
              category_msos d' =
                category_msos d @
                [\<lparr>mso_pk = fk, mso_category = cat_pk category, mso = m\<rparr>]) \<and>
           fk \<notin> mso_pk ` set (category_msos d))"

subsection \<open>Lookups by a unique column\<close>

lemma objects_get_none:
  "k \<notin> key ` set rows \<Longrightarrow> objects_get (\<lambda>r. key r = k) rows = Inl DoesNotExist"
proof -
  assume "k \<notin> key ` set rows"
  then have "filter (\<lambda>r. key r = k) rows = []" by (auto simp: filter_empty_conv)
  then show ?thesis by (simp add: objects_get_def)
qed

lemma objects_get_some:
  assumes "distinct (map key rows)" and "k \<in> key ` set rows"
  shows "\<exists>r \<in> set rows. key r = k \<and> objects_get (\<lambda>r. key r = k) rows = Inr r"
proof -
  from assms(2) have "filter (\<lambda>r. key r = k) rows \<noteq> []" by (auto simp: filter_empty_conv)
  moreover have "length (filter (\<lambda>r. key r = k) rows) \<le> 1"
    using assms(1) by (rule filter_key_distinct)
  ultimately obtain r where r: "filter (\<lambda>r. key r = k) rows = [r]"
    by (cases "filter (\<lambda>r. key r = k) rows") auto
  then have "r \<in> set (filter (\<lambda>r. key r = k) rows)" by simp
  then have "r \<in> set rows" "key r = k" by auto
  with r show ?thesis by (auto simp: objects_get_def)
qed

lemma foldr_max_ge: "x \<in> set pks \<Longrightarrow> x \<le> foldr max pks (0::nat)"
  by (induction pks) auto

lemma next_pk_fresh: "next_pk pks \<notin> set pks"
proof
  assume "next_pk pks \<in> set pks"
  then have "next_pk pks \<le> foldr max pks 0" by (rule foldr_max_ge)
  then show False by (simp add: next_pk_def)
qed

lemma currency_found_or_created:
  assumes "distinct (map cur_code (currencies d))"
    and "code \<notin> cur_code ` set (currencies d) \<longrightarrow>
           refuses_currency b (unknown_currency d code) = None"
  shows "\<exists>currency cs. get_or_create_unknown_currency b d code
            = (Inr currency, d\<lparr>currencies := cs\<rparr>) \<and>
           currency_attached d (d\<lparr>currencies := cs\<rparr>) code (cur_pk currency)"
proof (cases "code \<in> cur_code ` set (currencies d)")
  case True
  from objects_get_some[OF assms(1) True] obtain r
    where r: "r \<in> set (currencies d)" "cur_code r = code"
      "objects_get (\<lambda>c. cur_code c = code) (currencies d) = Inr r" by auto
  then have "get_or_create_unknown_currency b d code = (Inr r, d\<lparr>currencies := currencies d\<rparr>)"
    by (simp add: get_or_create_unknown_currency_def)
  moreover have "currency_attached d (d\<lparr>currencies := currencies d\<rparr>) code (cur_pk r)"
    using True r(1,2) by (auto simp: currency_attached_def)
  ultimately show ?thesis by blast
next
  case False
  define new where "new = unknown_currency d code"
  have acc: "refuses_currency b new = None" using False assms(2) by (simp add: new_def)
  have "get_or_create_unknown_currency b d code
          = (Inr new, d\<lparr>currencies := currencies d @ [new]\<rparr>)"
    using False acc
    by (simp add: get_or_create_unknown_currency_def objects_get_none
        create_unknown_currency_def Let_def new_def)
  moreover have "currency_attached d (d\<lparr>currencies := currencies d @ [new]\<rparr>) code (cur_pk new)"
    using False next_pk_fresh[of "map cur_pk (currencies d)"]
    by (simp add: currency_attached_def new_def unknown_currency_def)
  ultimately show ?thesis by blast
qed

lemma currency_attached_cong:
  "currencies a = currencies b \<Longrightarrow> currencies a' = currencies b' \<Longrightarrow>
   currency_attached a a' code fk = currency_attached b b' code fk"
  by (simp add: currency_attached_def)

lemma mcc_found_or_created:
  assumes "distinct (map mso (category_msos d))"
    and "distinct (map cat_name (categories d))"
    and "m \<notin> mso ` set (category_msos d) \<longrightarrow>
           (other_category_name \<notin> cat_name ` set (categories d) \<longrightarrow>
              refuses_category b (new_category d other_category_name) = None) \<and>
           (\<forall>category. refuses_category_mso b (new_category_mso d category m) = None)"
  shows "\<exists>mcc cats msos. get_or_create_mcc b d m
            = (Inr mcc, d\<lparr>categories := cats, category_msos := msos\<rparr>) \<and>
           mcc_attached d (d\<lparr>categories := cats, category_msos := msos\<rparr>) m (mso_pk mcc)"
proof (cases "m \<in> mso ` set (category_msos d)")
  case True
  from objects_get_some[OF assms(1) True] obtain x
    where x: "x \<in> set (category_msos d)" "mso x = m"
      "objects_get (\<lambda>r. mso r = m) (category_msos d) = Inr x" by auto
  then have "get_or_create_mcc b d m
               = (Inr x, d\<lparr>categories := categories d, category_msos := category_msos d\<rparr>)"
    by (simp add: get_or_create_mcc_def)
  moreover have "mcc_attached d (d\<lparr>categories := categories d, category_msos := category_msos d\<rparr>)
                   m (mso_pk x)"
    using True x(1,2) by (auto simp: mcc_attached_def)
  ultimately show ?thesis by blast
next
  case False
  then have none: "objects_get (\<lambda>r. mso r = m) (category_msos d) = Inl DoesNotExist"
    by (rule objects_get_none)
  have am: "refuses_category_mso b (new_category_mso d category m) = None" for category
    using False assms(3) by simp
  have fresh: "mso_pk (new_category_mso d category m) \<notin> mso_pk ` set (category_msos d)"
    for category
    using next_pk_fresh[of "map mso_pk (category_msos d)"] by (simp add: new_category_mso_def)
  show ?thesis
  proof (cases "other_category_name \<in> cat_name ` set (categories d)")
    case True
    from objects_get_some[OF assms(2) True] obtain c
      where c: "c \<in> set (categories d)" "cat_name c = other_category_name"
        "objects_get (\<lambda>r. cat_name r = other_category_name) (categories d) = Inr c" by auto
    define new where "new = new_category_mso d (cat_pk c) m"
    have "get_or_create_mcc b d m
            = (Inr new, d\<lparr>categories := categories d,
                           category_msos := category_msos d @ [new]\<rparr>)"
      using none c(3) am[of "cat_pk c"]
      by (simp add: get_or_create_mcc_def get_or_create_category_def new_def)
    moreover have "mcc_attached d (d\<lparr>categories := categories d,
                                    category_msos := category_msos d @ [new]\<rparr>) m (mso_pk new)"
      using False fresh[of "cat_pk c"] c(1,2)
      by (auto simp: mcc_attached_def new_def new_category_mso_def)
    ultimately show ?thesis by blast
  next
    case no_category: False
    then have nc: "objects_get (\<lambda>r. cat_name r = other_category_name) (categories d)
                     = Inl DoesNotExist"
      by (rule objects_get_none)
    define c where "c = new_category d other_category_name"
    have ac: "refuses_category b c = None"
      using False no_category assms(3) by (simp add: c_def)
    define d1 where "d1 = d\<lparr>categories := categories d @ [c]\<rparr>"
    have same: "new_category_mso d1 (cat_pk c) m = new_category_mso d (cat_pk c) m"
      by (simp add: new_category_mso_def d1_def)
    define new where "new = new_category_mso d (cat_pk c) m"
    have "get_or_create_mcc b d m
            = (Inr new, d\<lparr>categories := categories d @ [c],
                           category_msos := category_msos d @ [new]\<rparr>)"
      using none nc ac am[of "cat_pk c"] same
      by (simp add: get_or_create_mcc_def get_or_create_category_def new_def
          c_def[symmetric] d1_def[symmetric])
         (simp add: d1_def)
    moreover have "mcc_attached d (d\<lparr>categories := categories d @ [c],
                                    category_msos := category_msos d @ [new]\<rparr>) m (mso_pk new)"
      using False fresh[of "cat_pk c"]
      by (auto simp: mcc_attached_def new_def new_category_mso_def c_def new_category_def)
    ultimately show ?thesis by blast
  qed
qed

lemma mcc_attached_cong:
  "categories a = categories b \<Longrightarrow> category_msos a = category_msos b \<Longrightarrow>
   categories a' = categories b' \<Longrightarrow> category_msos a' = category_msos b' \<Longrightarrow>
   mcc_attached a a' m fk = mcc_attached b b' m fk"
  by (simp add: mcc_attached_def)

subsection \<open>The two branches of the card and jar tasks\<close>

lemma create_card_existing:
  assumes "objects_get (\<lambda>a. acc_user_tg_id a = tg_id) (mono_accounts d) = Inr acc"
    and "distinct (map cur_code (currencies d))"
    and "distinct (map card_id (mono_cards d))"
    and "cd_id p \<in> card_id ` set (mono_cards d)"
    and "cd_currency_code p \<notin> cur_code ` set (currencies d) \<longrightarrow>
           refuses_currency b (unknown_currency d (cd_currency_code p)) = None"
    and "\<forall>c \<in> set (mono_cards d). card_id c = cd_id p \<longrightarrow>
           refuses_card b (card_with_payload c p) = None"
  shows "\<exists>cs c. c \<in> set (mono_cards d) \<and> card_id c = cd_id p \<and>
           create_card_from_webhook b d tg_id p =
             (None, d\<lparr>currencies := cs,
                      mono_cards :=
                        map (\<lambda>r. if card_id r = cd_id p then card_with_payload c p else r)
                            (mono_cards d)\<rparr>)"
proof -
  from currency_found_or_created[OF assms(2,5)] obtain currency cs
    where cur: "get_or_create_unknown_currency b d (cd_currency_code p)
                  = (Inr currency, d\<lparr>currencies := cs\<rparr>)" by blast
  from objects_get_some[OF assms(3,4)] obtain c
    where c: "c \<in> set (mono_cards d)" "card_id c = cd_id p"
      "objects_get (\<lambda>r. card_id r = cd_id p) (mono_cards d) = Inr c" by blast
  have a: "refuses_card b (card_with_payload c p) = None" using assms(6) c(1,2) by blast
  have k: "card_id (card_with_payload c p) = cd_id p" by (simp add: card_with_payload_def)
  have "create_card_from_webhook b d tg_id p =
          (None, d\<lparr>currencies := cs,
                   mono_cards :=
                     map (\<lambda>r. if card_id r = cd_id p then card_with_payload c p else r)
                         (mono_cards d)\<rparr>)"
    using assms(1) cur c a k by (auto simp: create_card_from_webhook_def save_row_def)
  with c(1,2) show ?thesis by blast
qed

lemma create_card_new:
  assumes "objects_get (\<lambda>a. acc_user_tg_id a = tg_id) (mono_accounts d) = Inr acc"
    and "distinct (map cur_code (currencies d))"
    and "cd_id p \<notin> card_id ` set (mono_cards d)"
    and "cd_currency_code p \<notin> cur_code ` set (currencies d) \<longrightarrow>
           refuses_currency b (unknown_currency d (cd_currency_code p)) = None"
    and "\<forall>currency. refuses_card b (new_card acc currency p) = None"
  shows "\<exists>cs currency.
           create_card_from_webhook b d tg_id p =
             (None, d\<lparr>currencies := cs,
                      mono_cards := mono_cards d @ [new_card acc currency p]\<rparr>) \<and>
           currency_attached d (d\<lparr>currencies := cs\<rparr>) (cd_currency_code p) currency"
proof -
  from currency_found_or_created[OF assms(2,4)] obtain currency cs
    where cur: "get_or_create_unknown_currency b d (cd_currency_code p)
                  = (Inr currency, d\<lparr>currencies := cs\<rparr>)"
      and att: "currency_attached d (d\<lparr>currencies := cs\<rparr>) (cd_currency_code p)
                  (cur_pk currency)" by blast
  have "objects_get (\<lambda>r. card_id r = cd_id p) (mono_cards d) = Inl DoesNotExist"
    using assms(3) by (rule objects_get_none)
  then have "create_card_from_webhook b d tg_id p =
             (None, d\<lparr>currencies := cs,
                      mono_cards := mono_cards d @ [new_card acc (cur_pk currency) p]\<rparr>)"
    using assms(1,5) cur by (simp add: create_card_from_webhook_def)
  with att show ?thesis by blast
qed

lemma create_jar_existing:
  assumes "objects_get (\<lambda>a. acc_user_tg_id a = tg_id) (mono_accounts d) = Inr acc"
    and "distinct (map cur_code (currencies d))"
    and "distinct (map jar_id (mono_jars d))"
    and "jd_id p \<in> jar_id ` set (mono_jars d)"
    and "jd_currency_code p \<notin> cur_code ` set (currencies d) \<longrightarrow>
           refuses_currency b (unknown_currency d (jd_currency_code p)) = None"
    and "\<forall>j \<in> set (mono_jars d). jar_id j = jd_id p \<longrightarrow>
           refuses_jar b (jar_with_payload j p) = None"
  shows "\<exists>cs j. j \<in> set (mono_jars d) \<and> jar_id j = jd_id p \<and>
           create_jar_from_webhook b d tg_id p =
             (None, d\<lparr>currencies := cs,
                      mono_jars :=
                        map (\<lambda>r. if jar_id r = jd_id p then jar_with_payload j p else r)
                            (mono_jars d)\<rparr>)"
proof -
  from currency_found_or_created[OF assms(2,5)] obtain currency cs
    where cur: "get_or_create_unknown_currency b d (jd_currency_code p)
                  = (Inr currency, d\<lparr>currencies := cs\<rparr>)" by blast
  from objects_get_some[OF assms(3,4)] obtain j
    where j: "j \<in> set (mono_jars d)" "jar_id j = jd_id p"
      "objects_get (\<lambda>r. jar_id r = jd_id p) (mono_jars d) = Inr j" by blast
  have a: "refuses_jar b (jar_with_payload j p) = None" using assms(6) j(1,2) by blast
  have k: "jar_id (jar_with_payload j p) = jd_id p" by (simp add: jar_with_payload_def)
  have "create_jar_from_webhook b d tg_id p =
             (None, d\<lparr>currencies := cs,
                      mono_jars :=
                        map (\<lambda>r. if jar_id r = jd_id p then jar_with_payload j p else r)
                            (mono_jars d)\<rparr>)"
    using assms(1) cur j a k by (auto simp: create_jar_from_webhook_def save_row_def)
  with j(1,2) show ?thesis by blast
qed

lemma create_jar_new:
  assumes "objects_get (\<lambda>a. acc_user_tg_id a = tg_id) (mono_accounts d) = Inr acc"
    and "distinct (map cur_code (currencies d))"
    and "jd_id p \<notin> jar_id ` set (mono_jars d)"
    and "jd_currency_code p \<notin> cur_code ` set (currencies d) \<longrightarrow>
           refuses_currency b (unknown_currency d (jd_currency_code p)) = None"
    and "\<forall>currency. refuses_jar b (new_jar acc currency p) = None"
  shows "\<exists>cs currency.
           create_jar_from_webhook b d tg_id p =
             (None, d\<lparr>currencies := cs,
                      mono_jars := mono_jars d @ [new_jar acc currency p]\<rparr>) \<and>
           currency_attached d (d\<lparr>currencies := cs\<rparr>) (jd_currency_code p) currency"
proof -
  from currency_found_or_created[OF assms(2,4)] obtain currency cs
    where cur: "get_or_create_unknown_currency b d (jd_currency_code p)
                  = (Inr currency, d\<lparr>currencies := cs\<rparr>)"
      and att: "currency_attached d (d\<lparr>currencies := cs\<rparr>) (jd_currency_code p)
                  (cur_pk currency)" by blast
  have "objects_get (\<lambda>r. jar_id r = jd_id p) (mono_jars d) = Inl DoesNotExist"
    using assms(3) by (rule objects_get_none)
  then have "create_jar_from_webhook b d tg_id p =
             (None, d\<lparr>currencies := cs,
                      mono_jars := mono_jars d @ [new_jar acc (cur_pk currency) p]\<rparr>)"
    using assms(1,5) cur by (simp add: create_jar_from_webhook_def)
  with att show ?thesis by blast
qed

lemma card_upsert:
  assumes "objects_get (\<lambda>a. acc_user_tg_id a = tg_id) (mono_accounts d) = Inr acc"
    and "distinct (map cur_code (currencies d))"
    and "distinct (map card_id (mono_cards d))"
    and "cd_currency_code p \<notin> cur_code ` set (currencies d) \<longrightarrow>
           refuses_currency b (unknown_currency d (cd_currency_code p)) = None"
    and "\<forall>c \<in> set (mono_cards d). card_id c = cd_id p \<longrightarrow>
           refuses_card b (card_with_payload c p) = None"
    and "\<forall>currency. refuses_card b (new_card acc currency p) = None"
  shows "\<exists>d'. create_card_from_webhook b d tg_id p = (None, d') \<and>
           card_id ` set (mono_cards d') = card_id ` set (mono_cards d) \<union> {cd_id p} \<and>
           distinct (map card_id (mono_cards d')) \<and>
           (\<forall>c' \<in> set (mono_cards d'). card_id c' = cd_id p \<longrightarrow>
              card_is_active c' \<and> card_send_id c' = cd_send_id p \<and>
              card_cashback_type c' = cd_cashback_type p \<and> card_balance c' = cd_balance p \<and>
              card_credit_limit c' = cd_credit_limit p \<and>
              card_masked_pan c' = cd_masked_pan p \<and> card_type c' = cd_type p \<and>
              card_iban c' = cd_iban p) \<and>
           (cd_id p \<in> card_id ` set (mono_cards d) \<longrightarrow>
              length (mono_cards d') = length (mono_cards d) \<and>
              (\<forall>i < length (mono_cards d). card_id (mono_cards d ! i) \<noteq> cd_id p \<longrightarrow>
                 mono_cards d' ! i = mono_cards d ! i)) \<and>
           (cd_id p \<notin> card_id ` set (mono_cards d) \<longrightarrow>
              (\<exists>c'. mono_cards d' = mono_cards d @ [c'] \<and> card_monoaccount c' = acc_pk acc)) \<and>
           mono_jars d' = mono_jars d \<and> mono_accounts d' = mono_accounts d"
proof (cases "cd_id p \<in> card_id ` set (mono_cards d)")
  case True
  from create_card_existing[OF assms(1,2,3) True assms(4,5)] obtain cs c
    where c: "c \<in> set (mono_cards d)" "card_id c = cd_id p"
      and r: "create_card_from_webhook b d tg_id p =
             (None, d\<lparr>currencies := cs,
                      mono_cards :=
                        map (\<lambda>r. if card_id r = cd_id p then card_with_payload c p else r)
                            (mono_cards d)\<rparr>)" by blast
  define f where "f = (\<lambda>r. if card_id r = cd_id p then card_with_payload c p else r)"
  have r': "create_card_from_webhook b d tg_id p
              = (None, d\<lparr>currencies := cs, mono_cards := map f (mono_cards d)\<rparr>)"
    using r by (simp only: f_def)
  have ids: "map card_id (map f (mono_cards d)) = map card_id (mono_cards d)"
    by (simp add: f_def card_with_payload_def)
  have img: "card_id ` set (map f (mono_cards d)) = card_id ` set (mono_cards d)"
    using arg_cong[OF ids, of set] by (simp only: set_map)
  have dist: "distinct (map card_id (map f (mono_cards d)))"
    using assms(3) by (simp only: ids)
  have fields: "\<forall>c' \<in> set (map f (mono_cards d)). card_id c' = cd_id p \<longrightarrow>
              card_is_active c' \<and> card_send_id c' = cd_send_id p \<and>
              card_cashback_type c' = cd_cashback_type p \<and> card_balance c' = cd_balance p \<and>
              card_credit_limit c' = cd_credit_limit p \<and>
              card_masked_pan c' = cd_masked_pan p \<and> card_type c' = cd_type p \<and>
              card_iban c' = cd_iban p"
    by (auto simp: f_def card_with_payload_def)
  have others: "\<forall>i < length (mono_cards d). card_id (mono_cards d ! i) \<noteq> cd_id p \<longrightarrow>
                 map f (mono_cards d) ! i = mono_cards d ! i"
    by (simp add: f_def)
  show ?thesis
    using True img dist fields others by (simp add: r' insert_absorb)
next
  case False
  from create_card_new[OF assms(1,2) False assms(4,6)] obtain cs currency
    where r: "create_card_from_webhook b d tg_id p =
             (None, d\<lparr>currencies := cs,
                      mono_cards := mono_cards d @ [new_card acc currency p]\<rparr>)" by blast
  have "\<forall>c' \<in> set (mono_cards d). card_id c' \<noteq> cd_id p" using False by (auto simp: image_iff)
  then show ?thesis using False assms(3) by (simp add: r new_card_def)
qed

lemma jar_upsert:
  assumes "objects_get (\<lambda>a. acc_user_tg_id a = tg_id) (mono_accounts d) = Inr acc"
    and "distinct (map cur_code (currencies d))"
    and "distinct (map jar_id (mono_jars d))"
    and "jd_currency_code p \<notin> cur_code ` set (currencies d) \<longrightarrow>
           refuses_currency b (unknown_currency d (jd_currency_code p)) = None"
    and "\<forall>j \<in> set (mono_jars d). jar_id j = jd_id p \<longrightarrow>
           refuses_jar b (jar_with_payload j p) = None"
    and "\<forall>currency. refuses_jar b (new_jar acc currency p) = None"
  shows "\<exists>d'. create_jar_from_webhook b d tg_id p = (None, d') \<and>
           jar_id ` set (mono_jars d') = jar_id ` set (mono_jars d) \<union> {jd_id p} \<and>
           distinct (map jar_id (mono_jars d')) \<and>
           (\<forall>j' \<in> set (mono_jars d'). jar_id j' = jd_id p \<longrightarrow>
              jar_is_active j' \<and> jar_send_id j' = jd_send_id p \<and>
              jar_title j' = jd_title p \<and> jar_balance j' = jd_balance p \<and>
              jar_goal j' = jd_goal p) \<and>
           (jd_id p \<in> jar_id ` set (mono_jars d) \<longrightarrow>
              length (mono_jars d') = length (mono_jars d) \<and>
              (\<forall>i < length (mono_jars d). jar_id (mono_jars d ! i) \<noteq> jd_id p \<longrightarrow>
                 mono_jars d' ! i = mono_jars d ! i)) \<and>
           (jd_id p \<notin> jar_id ` set (mono_jars d) \<longrightarrow>
              (\<exists>j'. mono_jars d' = mono_jars d @ [j'] \<and> jar_monoaccount j' = acc_pk acc)) \<and>
           mono_cards d' = mono_cards d \<and> mono_accounts d' = mono_accounts d"
proof (cases "jd_id p \<in> jar_id ` set (mono_jars d)")
  case True
  from create_jar_existing[OF assms(1,2,3) True assms(4,5)] obtain cs j
    where j: "j \<in> set (mono_jars d)" "jar_id j = jd_id p"
      and r: "create_jar_from_webhook b d tg_id p =
             (None, d\<lparr>currencies := cs,
                      mono_jars :=
                        map (\<lambda>r. if jar_id r = jd_id p then jar_with_payload j p else r)
                            (mono_jars d)\<rparr>)" by blast
  define f where "f = (\<lambda>r. if jar_id r = jd_id p then jar_with_payload j p else r)"
  have r': "create_jar_from_webhook b d tg_id p
              = (None, d\<lparr>currencies := cs, mono_jars := map f (mono_jars d)\<rparr>)"
    using r by (simp only: f_def)
  have ids: "map jar_id (map f (mono_jars d)) = map jar_id (mono_jars d)"
    by (simp add: f_def jar_with_payload_def)
  have img: "jar_id ` set (map f (mono_jars d)) = jar_id ` set (mono_jars d)"
    using arg_cong[OF ids, of set] by (simp only: set_map)
  have dist: "distinct (map jar_id (map f (mono_jars d)))"
    using assms(3) by (simp only: ids)
  have fields: "\<forall>j' \<in> set (map f (mono_jars d)). jar_id j' = jd_id p \<longrightarrow>
              jar_is_active j' \<and> jar_send_id j' = jd_send_id p \<and>
              jar_title j' = jd_title p \<and> jar_balance j' = jd_balance p \<and>
              jar_goal j' = jd_goal p"
    by (auto simp: f_def jar_with_payload_def)
  have others: "\<forall>i < length (mono_jars d). jar_id (mono_jars d ! i) \<noteq> jd_id p \<longrightarrow>
                 map f (mono_jars d) ! i = mono_jars d ! i"
    by (simp add: f_def)
  show ?thesis
    using True img dist fields others by (simp add: r' insert_absorb)
next
  case False
  from create_jar_new[OF assms(1,2) False assms(4,6)] obtain cs currency
    where r: "create_jar_from_webhook b d tg_id p =
             (None, d\<lparr>currencies := cs,
                      mono_jars := mono_jars d @ [new_jar acc currency p]\<rparr>)" by blast
  have "\<forall>j' \<in> set (mono_jars d). jar_id j' \<noteq> jd_id p" using False by (auto simp: image_iff)
  then show ?thesis using False assms(3) by (simp add: r new_jar_def)
qed

subsection \<open>A transaction whose id is not stored\<close>

lemma get_or_create_row_new:
  assumes "key row \<notin> key ` set rows" and "refuses row = None"
  shows "get_or_create_row refuses key row rows = Inr (rows @ [row])"
proof -
  from assms(1) have n: "\<forall>r \<in> set rows. key r \<noteq> key row" by (auto simp: image_iff)
  then have "\<forall>r \<in> set rows. r \<noteq> row" by auto
  then have "filter (\<lambda>r. r = row) rows = []" by (simp add: filter_empty_conv)
  then have "objects_get (\<lambda>r. r = row) rows = Inl DoesNotExist" by (simp add: objects_get_def)
  with n assms(2) show ?thesis by (simp add: get_or_create_row_def)
qed

lemma create_transaction_new:
  assumes "distinct (map cur_code (currencies d))"
    and "distinct (map mso (category_msos d))"
    and "distinct (map cat_name (categories d))"
    and "objects_get (\<lambda>c. card_id c = cid) (mono_cards d) = Inr owner"
    and "ti_id p \<notin> mt_id ` set (mono_transactions d)"
    and "payload_mso d (ti_mcc p) \<notin> mso ` set (category_msos d) \<longrightarrow>
           (other_category_name \<notin> cat_name ` set (categories d) \<longrightarrow>
              refuses_category b (new_category d other_category_name) = None) \<and>
           (\<forall>category. refuses_category_mso b
                          (new_category_mso d category (payload_mso d (ti_mcc p))) = None)"
    and "ti_currency_code p \<notin> cur_code ` set (currencies d) \<longrightarrow>
           refuses_currency b (unknown_currency d (ti_currency_code p)) = None"
    and "\<forall>mcc currency. refuses_mono_transaction b (mono_transaction_of owner mcc currency p)
           = None"
  shows "\<exists>d' t fk. create_transaction_from_webhook b d cid p = (None, d') \<and>
           mono_transactions d' = mono_transactions d @ [t] \<and>
           mt_id t = ti_id p \<and> mt_account t = card_id owner \<and> mt_currency t = Some fk \<and>
           currency_attached d d' (ti_currency_code p) fk \<and>
           (\<forall>m. ti_mcc p = Some m \<longrightarrow> mcc_attached d d' m (mt_mcc t))"
proof -
  define n where "n = payload_mso d (ti_mcc p)"
  from mcc_found_or_created[OF assms(2,3), of n b] assms(6) obtain mcc cats msos
    where mcc: "get_or_create_mcc b d n
                  = (Inr mcc, d\<lparr>categories := cats, category_msos := msos\<rparr>)"
      and ma: "mcc_attached d (d\<lparr>categories := cats, category_msos := msos\<rparr>) n (mso_pk mcc)"
    unfolding n_def by blast
  define d1 where "d1 = d\<lparr>categories := cats, category_msos := msos\<rparr>"
  have d1: "currencies d1 = currencies d" "mono_transactions d1 = mono_transactions d"
    by (simp_all add: d1_def)
  have u: "unknown_currency d1 (ti_currency_code p) = unknown_currency d (ti_currency_code p)"
    by (simp add: unknown_currency_def d1)
  have h1: "distinct (map cur_code (currencies d1))" using assms(1) by (simp only: d1)
  have h2: "ti_currency_code p \<notin> cur_code ` set (currencies d1) \<longrightarrow>
           refuses_currency b (unknown_currency d1 (ti_currency_code p)) = None"
    using assms(7) by (simp only: d1 u)
  from currency_found_or_created[OF h1 h2] obtain currency cs
    where cur: "get_or_create_unknown_currency b d1 (ti_currency_code p)
                  = (Inr currency, d1\<lparr>currencies := cs\<rparr>)"
      and ca: "currency_attached d1 (d1\<lparr>currencies := cs\<rparr>) (ti_currency_code p)
                 (cur_pk currency)" by blast
  define t where "t = mono_transaction_of owner (mso_pk mcc) (cur_pk currency) p"
  have tid: "mt_id t = ti_id p" "mt_account t = card_id owner"
    "mt_currency t = Some (cur_pk currency)" "mt_mcc t = mso_pk mcc"
    by (simp_all add: t_def mono_transaction_of_def)
  have "mt_id t \<notin> mt_id ` set (mono_transactions d)" using assms(5) by (simp add: tid)
  moreover have "refuses_mono_transaction b t = None" using assms(8) by (simp add: t_def)
  ultimately have row: "get_or_create_row (refuses_mono_transaction b) mt_id t
                          (mono_transactions d) = Inr (mono_transactions d @ [t])"
    by (rule get_or_create_row_new)
  define d' where "d' = d1\<lparr>currencies := cs, mono_transactions := mono_transactions d @ [t]\<rparr>"
  have res: "create_transaction_from_webhook b d cid p = (None, d')"
    using assms(4) mcc cur row
    by (simp add: create_transaction_from_webhook_def n_def[symmetric] d1_def[symmetric]
        t_def[symmetric] d'_def d1(2))
  have a1: "currency_attached d d' (ti_currency_code p) (cur_pk currency)"
    using ca currency_attached_cong[of d d1 d' "d1\<lparr>currencies := cs\<rparr>"]
    by (simp add: d1 d'_def)
  have a2: "mcc_attached d d' n (mt_mcc t)"
    using ma mcc_attached_cong[of d d d' "d\<lparr>categories := cats, category_msos := msos\<rparr>"]
    by (simp add: d'_def d1_def tid)
  have a3: "\<forall>m. ti_mcc p = Some m \<longrightarrow> mcc_attached d d' m (mt_mcc t)"
    using a2 by (auto simp: n_def payload_mso_def)
  have "mono_transactions d' = mono_transactions d @ [t]" by (simp add: d'_def)
  then show ?thesis using res a1 a3 tid(1,2,3) by blast
qed

lemma create_jar_transaction_new:
  assumes "distinct (map cur_code (currencies d))"
    and "distinct (map mso (category_msos d))"
    and "distinct (map cat_name (categories d))"
    and "objects_get (\<lambda>j. jar_id j = jid) (mono_jars d) = Inr owner"
    and "ji_id p \<notin> jt_id ` set (jar_transactions d)"
    and "payload_mso d (ji_mcc p) \<notin> mso ` set (category_msos d) \<longrightarrow>
           (other_category_name \<notin> cat_name ` set (categories d) \<longrightarrow>
              refuses_category b (new_category d other_category_name) = None) \<and>
           (\<forall>category. refuses_category_mso b
                          (new_category_mso d category (payload_mso d (ji_mcc p))) = None)"
    and "ji_currency_code p \<notin> cur_code ` set (currencies d) \<longrightarrow>
           refuses_currency b (unknown_currency d (ji_currency_code p)) = None"
    and "\<forall>mcc currency. refuses_jar_transaction b (jar_transaction_of owner mcc currency p)
           = None"
  shows "\<exists>d' t fk. create_jar_transaction_from_webhook b d jid p = (None, d') \<and>
           jar_transactions d' = jar_transactions d @ [t] \<and>
           jt_id t = ji_id p \<and> jt_account t = jar_id owner \<and> jt_currency t = Some fk \<and>
           currency_attached d d' (ji_currency_code p) fk \<and>
           (\<forall>m. ji_mcc p = Some m \<longrightarrow> mcc_attached d d' m (jt_mcc t))"
proof -
  define n where "n = payload_mso d (ji_mcc p)"
  from mcc_found_or_created[OF assms(2,3), of n b] assms(6) obtain mcc cats msos
    where mcc: "get_or_create_mcc b d n
                  = (Inr mcc, d\<lparr>categories := cats, category_msos := msos\<rparr>)"
      and ma: "mcc_attached d (d\<lparr>categories := cats, category_msos := msos\<rparr>) n (mso_pk mcc)"
    unfolding n_def by blast
  define d1 where "d1 = d\<lparr>categories := cats, category_msos := msos\<rparr>"
  have d1: "currencies d1 = currencies d" "jar_transactions d1 = jar_transactions d"
    by (simp_all add: d1_def)
  have u: "unknown_currency d1 (ji_currency_code p) = unknown_currency d (ji_currency_code p)"
    by (simp add: unknown_currency_def d1)
  have h1: "distinct (map cur_code (currencies d1))" using assms(1) by (simp only: d1)
  have h2: "ji_currency_code p \<notin> cur_code ` set (currencies d1) \<longrightarrow>
           refuses_currency b (unknown_currency d1 (ji_currency_code p)) = None"
    using assms(7) by (simp only: d1 u)
  from currency_found_or_created[OF h1 h2] obtain currency cs
    where cur: "get_or_create_unknown_currency b d1 (ji_currency_code p)
                  = (Inr currency, d1\<lparr>currencies := cs\<rparr>)"
      and ca: "currency_attached d1 (d1\<lparr>currencies := cs\<rparr>) (ji_currency_code p)
                 (cur_pk currency)" by blast
  define t where "t = jar_transaction_of owner (mso_pk mcc) (cur_pk currency) p"
  have tid: "jt_id t = ji_id p" "jt_account t = jar_id owner"
    "jt_currency t = Some (cur_pk currency)" "jt_mcc t = mso_pk mcc"
    by (simp_all add: t_def jar_transaction_of_def)
  have "jt_id t \<notin> jt_id ` set (jar_transactions d)" using assms(5) by (simp add: tid)
  moreover have "refuses_jar_transaction b t = None" using assms(8) by (simp add: t_def)
  ultimately have row: "get_or_create_row (refuses_jar_transaction b) jt_id t
                          (jar_transactions d) = Inr (jar_transactions d @ [t])"
    by (rule get_or_create_row_new)
  define d' where "d' = d1\<lparr>currencies := cs, jar_transactions := jar_transactions d @ [t]\<rparr>"
  have res: "create_jar_transaction_from_webhook b d jid p = (None, d')"
    using assms(4) mcc cur row
    by (simp add: create_jar_transaction_from_webhook_def n_def[symmetric] d1_def[symmetric]
        t_def[symmetric] d'_def d1(2))
  have a1: "currency_attached d d' (ji_currency_code p) (cur_pk currency)"
    using ca currency_attached_cong[of d d1 d' "d1\<lparr>currencies := cs\<rparr>"]
    by (simp add: d1 d'_def)
  have a2: "mcc_attached d d' n (jt_mcc t)"
    using ma mcc_attached_cong[of d d d' "d\<lparr>categories := cats, category_msos := msos\<rparr>"]
    by (simp add: d'_def d1_def tid)
  have a3: "\<forall>m. ji_mcc p = Some m \<longrightarrow> mcc_attached d d' m (jt_mcc t)"
    using a2 by (auto simp: n_def payload_mso_def)
  have "jar_transactions d' = jar_transactions d @ [t]" by (simp add: d'_def)
  then show ?thesis using res a1 a3 tid(1,2,3) by blast
qed

lemma create_card_attaches_currency:
  assumes "distinct (map cur_code (currencies d))"
    and "objects_get (\<lambda>a. acc_user_tg_id a = tg_id) (mono_accounts d) = Inr acc"
    and "cd_id p \<notin> card_id ` set (mono_cards d)"
    and "cd_currency_code p \<notin> cur_code ` set (currencies d) \<longrightarrow>
           refuses_currency b (unknown_currency d (cd_currency_code p)) = None"
    and "\<forall>currency. refuses_card b (new_card acc currency p) = None"
  shows "\<exists>d' c'. create_card_from_webhook b d tg_id p = (None, d') \<and>
           mono_cards d' = mono_cards d @ [c'] \<and> card_id c' = cd_id p \<and>
           currency_attached d d' (cd_currency_code p) (card_currency c')"
proof -
  from create_card_new[OF assms(2,1,3,4,5)] obtain cs currency
    where r: "create_card_from_webhook b d tg_id p =
             (None, d\<lparr>currencies := cs,
                      mono_cards := mono_cards d @ [new_card acc currency p]\<rparr>)"
      and a: "currency_attached d (d\<lparr>currencies := cs\<rparr>) (cd_currency_code p) currency"
    by blast
  define c' where "c' = new_card acc currency p"
  define d' where "d' = d\<lparr>currencies := cs, mono_cards := mono_cards d @ [c']\<rparr>"
  have "create_card_from_webhook b d tg_id p = (None, d')" using r by (simp only: d'_def c'_def)
  moreover have "mono_cards d' = mono_cards d @ [c']" by (simp add: d'_def)
  moreover have "card_id c' = cd_id p" by (simp add: c'_def new_card_def)
  moreover have "currency_attached d d' (cd_currency_code p) (card_currency c')"
    using a currency_attached_cong[of d d d' "d\<lparr>currencies := cs\<rparr>"]
    by (simp add: d'_def c'_def new_card_def)
  ultimately show ?thesis by blast
qed

lemma create_jar_attaches_currency:
  assumes "distinct (map cur_code (currencies d))"
    and "objects_get (\<lambda>a. acc_user_tg_id a = tg_id) (mono_accounts d) = Inr acc"
    and "jd_id p \<notin> jar_id ` set (mono_jars d)"
    and "jd_currency_code p \<notin> cur_code ` set (currencies d) \<longrightarrow>
           refuses_currency b (unknown_currency d (jd_currency_code p)) = None"
    and "\<forall>currency. refuses_jar b (new_jar acc currency p) = None"
  shows "\<exists>d' j'. create_jar_from_webhook b d tg_id p = (None, d') \<and>
           mono_jars d' = mono_jars d @ [j'] \<and> jar_id j' = jd_id p \<and>
           currency_attached d d' (jd_currency_code p) (jar_currency j')"
proof -
  from create_jar_new[OF assms(2,1,3,4,5)] obtain cs currency
    where r: "create_jar_from_webhook b d tg_id p =
             (None, d\<lparr>currencies := cs,
                      mono_jars := mono_jars d @ [new_jar acc currency p]\<rparr>)"
      and a: "currency_attached d (d\<lparr>currencies := cs\<rparr>) (jd_currency_code p) currency"
    by blast
  define j' where "j' = new_jar acc currency p"
  define d' where "d' = d\<lparr>currencies := cs, mono_jars := mono_jars d @ [j']\<rparr>"
  have "create_jar_from_webhook b d tg_id p = (None, d')" using r by (simp only: d'_def j'_def)
  moreover have "mono_jars d' = mono_jars d @ [j']" by (simp add: d'_def)
  moreover have "jar_id j' = jd_id p" by (simp add: j'_def new_jar_def)
  moreover have "currency_attached d d' (jd_currency_code p) (jar_currency j')"
    using a currency_attached_cong[of d d d' "d\<lparr>currencies := cs\<rparr>"]
    by (simp add: d'_def j'_def new_jar_def)
  ultimately show ?thesis by blast
qed

end
